theory Spec2Isabelle
  imports Complex_Main "HOL-Library.AList" "HOL-Library.Multiset"
begin

section \<open>Python values\<close>

text \<open>
  The merge code of \<^verbatim>\<open>src/main.py\<close> works on dynamically typed data: pydantic model
  instances, and plain dictionaries as a fallback. Plain values are the JSON shapes.
  A dictionary is an association list in insertion order (Python dictionaries keep
  insertion order); lookup takes the first binding of a key. Floats are modelled by the
  real number they denote (NaN and the infinities are left out).
\<close>

datatype pyval =
    PyNone
  | PyStr string
  | PyFloat real
  | PyList "pyval list"
  | PyDict "(string \<times> pyval) list"

type_synonym pydict = "(string \<times> pyval) list"

datatype py_error = TypeError | IndexError | KeyError | AttributeError | ValueError

text \<open>\<^verbatim>\<open>d.get(k)\<close>: the value, or \<^verbatim>\<open>None\<close> when the key is missing.\<close>

definition py_get :: "pydict \<Rightarrow> string \<Rightarrow> pyval" where
  "py_get d k = (case map_of d k of None \<Rightarrow> PyNone | Some v \<Rightarrow> v)"

text \<open>\<^verbatim>\<open>d.get(k, dflt)\<close>.\<close>

definition py_get_default :: "pydict \<Rightarrow> string \<Rightarrow> pyval \<Rightarrow> pyval" where
  "py_get_default d k dflt = (case map_of d k of None \<Rightarrow> dflt | Some v \<Rightarrow> v)"

text \<open>\<^verbatim>\<open>d[k]\<close>: raises \<^verbatim>\<open>KeyError\<close> when the key is missing.\<close>

definition py_getitem :: "pydict \<Rightarrow> string \<Rightarrow> py_error + pyval" where
  "py_getitem d k = (case map_of d k of None \<Rightarrow> Inl KeyError | Some v \<Rightarrow> Inr v)"

text \<open>\<^verbatim>\<open>k in d\<close>.\<close>

definition py_in :: "string \<Rightarrow> pydict \<Rightarrow> bool" where
  "py_in k d \<longleftrightarrow> map_of d k \<noteq> None"

text \<open>
  What \<^verbatim>\<open>list.extend(v)\<close> iterates over: the elements of a list, the characters of a
  string, the keys of a dictionary; \<^verbatim>\<open>None\<close> and numbers raise \<^verbatim>\<open>TypeError\<close>.
\<close>

fun py_iter :: "pyval \<Rightarrow> py_error + pyval list" where
  "py_iter (PyList xs) = Inr xs"
| "py_iter (PyStr s) = Inr (map (\<lambda>c. PyStr [c]) s)"
| "py_iter (PyDict d) = Inr (map (\<lambda>kv. PyStr (fst kv)) d)"
| "py_iter PyNone = Inl TypeError"
| "py_iter (PyFloat r) = Inl TypeError"

text \<open>\<^verbatim>\<open>xs[i]\<close> on a list: negative indices count from the end, out of range raises.\<close>

definition py_index :: "'a list \<Rightarrow> int \<Rightarrow> py_error + 'a" where
  "py_index xs i =
     (if 0 \<le> i \<and> i < int (length xs) then Inr (xs ! nat i)
      else if i < 0 \<and> - int (length xs) \<le> i then Inr (xs ! nat (int (length xs) + i))
      else Inl IndexError)"

section \<open>The schema (\<^verbatim>\<open>src/models/directionalsurvey.py\<close>)\<close>

record SurveyPoint =
  md :: real
  inc :: real
  azi :: real
  tvd :: real
  ns :: real
  ew :: real

record DirectionalSurvey =
  uwi :: string
  survey_points :: "SurveyPoint list"
  operator :: "string option"
  vendor :: "string option"
  contact_info :: "string option"
  county :: "string option"
  "method" :: "string option"
  north_ref :: "string option"
  shl_lat :: "string option"
  shl_lon :: "string option"
  shl_x :: "string option"
  shl_y :: "string option"
  bhl_lat :: "string option"
  bhl_lon :: "string option"
  bhl_x :: "string option"
  bhl_y :: "string option"
  lease_location :: "string option"
  job_number :: "string option"
  map_zone :: "string option"
  map_system :: "string option"
  geo_datum :: "string option"
  system_datum :: "string option"
  ground_level_elevation :: "string option"
  datum_elevation :: "string option"
  date_created :: "string option"

text \<open>\<^verbatim>\<open>model_dump()\<close>: the instance as a dictionary, fields in declaration order.\<close>

definition SurveyPoint_model_dump :: "SurveyPoint \<Rightarrow> pyval" where
  "SurveyPoint_model_dump p = PyDict
     [(''md'', PyFloat (md p)), (''inc'', PyFloat (inc p)), (''azi'', PyFloat (azi p)),
      (''tvd'', PyFloat (tvd p)), (''ns'', PyFloat (ns p)), (''ew'', PyFloat (ew p))]"

definition opt_str :: "string option \<Rightarrow> pyval" where
  "opt_str v = (case v of None \<Rightarrow> PyNone | Some s \<Rightarrow> PyStr s)"

definition model_dump :: "DirectionalSurvey \<Rightarrow> pydict" where
  "model_dump s =
     [(''uwi'', PyStr (uwi s)),
      (''survey_points'', PyList (map SurveyPoint_model_dump (survey_points s))),
      (''operator'', opt_str (operator s)),
      (''vendor'', opt_str (vendor s)),
      (''contact_info'', opt_str (contact_info s)),
      (''county'', opt_str (county s)),
      (''method'', opt_str (method s)),
      (''north_ref'', opt_str (north_ref s)),
      (''shl_lat'', opt_str (shl_lat s)),
      (''shl_lon'', opt_str (shl_lon s)),
      (''shl_x'', opt_str (shl_x s)),
      (''shl_y'', opt_str (shl_y s)),
      (''bhl_lat'', opt_str (bhl_lat s)),
      (''bhl_lon'', opt_str (bhl_lon s)),
      (''bhl_x'', opt_str (bhl_x s)),
      (''bhl_y'', opt_str (bhl_y s)),
      (''lease_location'', opt_str (lease_location s)),
      (''job_number'', opt_str (job_number s)),
      (''map_zone'', opt_str (map_zone s)),
      (''map_system'', opt_str (map_system s)),
      (''geo_datum'', opt_str (geo_datum s)),
      (''system_datum'', opt_str (system_datum s)),
      (''ground_level_elevation'', opt_str (ground_level_elevation s)),
      (''datum_elevation'', opt_str (datum_elevation s)),
      (''date_created'', opt_str (date_created s))]"

section \<open>The multi-page merge (\<^verbatim>\<open>src/main.py\<close>)\<close>

text \<open>
  What \<^verbatim>\<open>extract_survey_structured\<close> hands to the merge for one page: a
  \<^verbatim>\<open>DirectionalSurvey\<close> instance, or any other value (a dictionary, \<^verbatim>\<open>{}\<close> after a
  caught exception).
\<close>

datatype structured = Survey DirectionalSurvey | Plain pyval

text \<open>
  An element of \<^verbatim>\<open>all_survey_points\<close>: a \<^verbatim>\<open>SurveyPoint\<close> instance taken from a model, or
  whatever a dictionary's \<^verbatim>\<open>"survey_points"\<close> held. The final comprehension
  \<^verbatim>\<open>sp.model_dump() if hasattr(sp, "model_dump") else sp\<close> dumps the former.
\<close>

datatype point_item = PointModel SurveyPoint | PointPlain pyval

fun dump_point :: "point_item \<Rightarrow> pyval" where
  "dump_point (PointModel p) = SurveyPoint_model_dump p"
| "dump_point (PointPlain v) = v"

definition metadata_fields :: "string list" where
  "metadata_fields =
     [''uwi'', ''operator'', ''vendor'', ''contact_info'', ''county'', ''method'', ''north_ref'',
      ''shl_lat'', ''shl_lon'', ''shl_x'', ''shl_y'', ''bhl_lat'', ''bhl_lon'', ''bhl_x'', ''bhl_y'',
      ''lease_location'', ''job_number'', ''map_system'', ''geo_datum'', ''system_datum'', ''map_zone'',
      ''ground_level_elevation'', ''datum_elevation'', ''date_created'']"

text \<open>\<^verbatim>\<open>for field in metadata_fields: merged_metadata[field] = None\<close>, from \<^verbatim>\<open>{}\<close>.\<close>

definition init_metadata :: "string list \<Rightarrow> pydict" where
  "init_metadata fs = fold (\<lambda>field m. AList.update field PyNone m) fs []"

text \<open>\<^verbatim>\<open>v in [None, ""]\<close>.\<close>

definition in_none_or_empty :: "pyval \<Rightarrow> bool" where
  "in_none_or_empty v \<longleftrightarrow> v = PyNone \<or> v = PyStr ''''"

text \<open>
  The three-way branch on the page's result: the new point list, the page's metadata
  dictionary, and whether the \<^verbatim>\<open>else\<close> branch (no valid structured data) was taken.
\<close>

fun merge_points :: "point_item list \<Rightarrow> structured
    \<Rightarrow> py_error + (point_item list \<times> pydict \<times> bool)" where
  "merge_points pts (Survey s) =
     Inr (pts @ map PointModel (survey_points s), model_dump s, True)"
| "merge_points pts (Plain (PyDict d)) =
     (if py_in ''survey_points'' d then
        (case py_getitem d ''survey_points'' of
           Inl e \<Rightarrow> Inl e
         | Inr v \<Rightarrow> (case py_iter v of
                      Inl e \<Rightarrow> Inl e
                    | Inr xs \<Rightarrow> Inr (pts @ map PointPlain xs, d, True)))
      else Inr (pts, [], False))"
| "merge_points pts (Plain v) = Inr (pts, [], False)"

text \<open>
  \<^verbatim>\<open>for field in metadata_fields:\<close> take the first non-empty value. The accumulator is
  read with \<^verbatim>\<open>merged_metadata[field]\<close>, only when the page's value is non-empty
  (\<^verbatim>\<open>and\<close> short-circuits).
\<close>

fun merge_fields :: "pydict \<Rightarrow> string list \<Rightarrow> pydict \<Rightarrow> py_error + pydict" where
  "merge_fields page_metadata [] merged = Inr merged"
| "merge_fields page_metadata (field # fs) merged =
     (let val = py_get page_metadata field in
      if \<not> in_none_or_empty val then
        (case py_getitem merged field of
           Inl e \<Rightarrow> Inl e
         | Inr cur \<Rightarrow>
             if in_none_or_empty cur
             then merge_fields page_metadata fs (AList.update field val merged)
             else merge_fields page_metadata fs merged)
      else merge_fields page_metadata fs merged)"

datatype warning = OutOfRange int | NoValidData

record merge_state =
  all_survey_points :: "point_item list"
  merged_metadata :: pydict
  warnings :: "warning list"

definition init_state :: merge_state where
  "init_state = \<lparr>all_survey_points = [], merged_metadata = init_metadata metadata_fields,
                 warnings = []\<rparr>"

text \<open>
  One page's share of the loop body, from the page's \<^verbatim>\<open>structured\<close> on. The flag says
  whether the function prints the no-valid-data warning
  (\<^verbatim>\<open>extract_selected_pages_survey\<close> does, \<^verbatim>\<open>extract_and_merge_survey\<close> does not).
\<close>

definition merge_page :: "bool \<Rightarrow> structured \<Rightarrow> merge_state \<Rightarrow> py_error + merge_state" where
  "merge_page warn st_page st =
     (case merge_points (all_survey_points st) st_page of
        Inl e \<Rightarrow> Inl e
      | Inr (pts, page_metadata, valid) \<Rightarrow>
          (case merge_fields page_metadata metadata_fields (merged_metadata st) of
             Inl e \<Rightarrow> Inl e
           | Inr merged \<Rightarrow>
               Inr \<lparr>all_survey_points = pts, merged_metadata = merged,
                    warnings = (if warn \<and> \<not> valid then warnings st @ [NoValidData]
                                else warnings st)\<rparr>))"

text \<open>
  The clean-up after the loop: drop the empty entries, then add \<^verbatim>\<open>"survey_points"\<close>
  when the point list is non-empty.
\<close>

definition finalize :: "merge_state \<Rightarrow> pydict" where
  "finalize st =
     (let cleaned = filter (\<lambda>kv. \<not> in_none_or_empty (snd kv)) (merged_metadata st) in
      if all_survey_points st \<noteq> []
      then AList.update ''survey_points'' (PyList (map dump_point (all_survey_points st))) cleaned
      else cleaned)"

text \<open>
  \<^verbatim>\<open>extract_and_merge_survey\<close>: every page of the document, in page order. The page
  pipeline (image, OCR, text aggregation, \<^verbatim>\<open>extract_survey_structured\<close>) is the
  parameter \<open>ex\<close>; files written on the way are left out.
\<close>

fun merge_loop :: "('p \<Rightarrow> structured) \<Rightarrow> 'p list \<Rightarrow> merge_state \<Rightarrow> py_error + merge_state" where
  "merge_loop ex [] st = Inr st"
| "merge_loop ex (img # images) st =
     (case merge_page False (ex img) st of
        Inl e \<Rightarrow> Inl e
      | Inr st' \<Rightarrow> merge_loop ex images st')"

definition extract_and_merge_survey :: "('p \<Rightarrow> structured) \<Rightarrow> 'p list \<Rightarrow> py_error + pydict" where
  "extract_and_merge_survey ex images =
     (case merge_loop ex images init_state of
        Inl e \<Rightarrow> Inl e
      | Inr st \<Rightarrow> Inr (finalize st))"

text \<open>
  \<^verbatim>\<open>extract_selected_pages_survey\<close>: the selected indices, in the order of the list. An
  index \<open>\<ge> len(pages_data)\<close> is warned about and skipped; any other index is used to
  subscript \<^verbatim>\<open>pages_data\<close>.
\<close>

fun selected_loop :: "('p \<Rightarrow> structured) \<Rightarrow> 'p list \<Rightarrow> int list \<Rightarrow> merge_state
    \<Rightarrow> py_error + merge_state" where
  "selected_loop ex pages_data [] st = Inr st"
| "selected_loop ex pages_data (page_idx # rest) st =
     (if page_idx \<ge> int (length pages_data)
      then selected_loop ex pages_data rest (st\<lparr>warnings := warnings st @ [OutOfRange page_idx]\<rparr>)
      else (case py_index pages_data page_idx of
              Inl e \<Rightarrow> Inl e
            | Inr page_data \<Rightarrow>
                (case merge_page True (ex page_data) st of
                   Inl e \<Rightarrow> Inl e
                 | Inr st' \<Rightarrow> selected_loop ex pages_data rest st')))"

definition extract_selected_pages_survey ::
    "('p \<Rightarrow> structured) \<Rightarrow> 'p list \<Rightarrow> int list \<Rightarrow> py_error + pydict" where
  "extract_selected_pages_survey ex pages_data selected_page_indices =
     (case selected_loop ex pages_data selected_page_indices init_state of
        Inl e \<Rightarrow> Inl e
      | Inr st \<Rightarrow> Inr (finalize st))"

section \<open>The page-selection and table callbacks (\<^verbatim>\<open>src/app.py\<close>)\<close>

text \<open>
  \<^verbatim>\<open>update_page_selection_from_checkboxes\<close>. A checkbox id is the dictionary
  \<^verbatim>\<open>{"type": "page-checkbox", "index": idx}\<close>; only its \<^verbatim>\<open>"index"\<close> is read, so an id
  is modelled by that index.
\<close>

definition update_page_selection_from_checkboxes :: "bool list \<Rightarrow> int list \<Rightarrow> 'p list \<Rightarrow> int list" where
  "update_page_selection_from_checkboxes checkbox_values checkbox_ids pages_data =
     (if pages_data = [] then []
      else sort (map (\<lambda>ic. checkbox_ids ! fst ic)
                  (filter (\<lambda>ic. snd ic \<and> fst ic < length checkbox_ids)
                     (enumerate 0 checkbox_values))))"

text \<open>Truth value of a Python value in a condition.\<close>

definition py_truthy :: "pyval \<Rightarrow> bool" where
  "py_truthy v =
     (case v of PyNone \<Rightarrow> False | PyStr s \<Rightarrow> s \<noteq> [] | PyFloat r \<Rightarrow> r \<noteq> 0
      | PyList xs \<Rightarrow> xs \<noteq> [] | PyDict d \<Rightarrow> d \<noteq> [])"

text \<open>
  \<^verbatim>\<open>float(v)\<close>. Reading a number out of a string is Python's own parser, the parameter
  \<open>parse\<close>.
\<close>

definition py_float :: "(string \<Rightarrow> real option) \<Rightarrow> pyval \<Rightarrow> py_error + real" where
  "py_float parse v =
     (case v of
        PyFloat r \<Rightarrow> Inr r
      | PyStr s \<Rightarrow> (case parse s of None \<Rightarrow> Inl ValueError | Some r \<Rightarrow> Inr r)
      | _ \<Rightarrow> Inl TypeError)"

text \<open>The sort key \<^verbatim>\<open>lambda x: float(x.get("md", 0))\<close>; only a dictionary has \<^verbatim>\<open>get\<close>.\<close>

definition md_key :: "(string \<Rightarrow> real option) \<Rightarrow> pyval \<Rightarrow> py_error + real" where
  "md_key parse x =
     (case x of
        PyDict d \<Rightarrow> py_float parse (py_get_default d ''md'' (PyFloat 0))
      | _ \<Rightarrow> Inl AttributeError)"

text \<open>
  \<^verbatim>\<open>sorted(v, key=key)\<close>: the keys of all elements are computed first (the first failure
  is raised), then the elements are sorted by key, stably, into a new list.
\<close>

fun collect_keys :: "('a \<Rightarrow> py_error + 'k) \<Rightarrow> 'a list \<Rightarrow> py_error + 'k list" where
  "collect_keys key [] = Inr []"
| "collect_keys key (x # xs) =
     (case key x of
        Inl e \<Rightarrow> Inl e
      | Inr k \<Rightarrow> (case collect_keys key xs of Inl e \<Rightarrow> Inl e | Inr ks \<Rightarrow> Inr (k # ks)))"

definition py_sorted :: "(pyval \<Rightarrow> py_error + real) \<Rightarrow> pyval \<Rightarrow> py_error + pyval list" where
  "py_sorted key v =
     (case py_iter v of
        Inl e \<Rightarrow> Inl e
      | Inr xs \<Rightarrow>
          (case collect_keys key xs of
             Inl e \<Rightarrow> Inl e
           | Inr ks \<Rightarrow> Inr (map snd (sort_key fst (zip ks xs)))))"

text \<open>\<^verbatim>\<open>v[0]\<close> and \<^verbatim>\<open>v.keys()\<close>.\<close>

definition py_first :: "pyval \<Rightarrow> py_error + pyval" where
  "py_first v =
     (case v of
        PyList xs \<Rightarrow> py_index xs 0
      | PyStr s \<Rightarrow> (case s of [] \<Rightarrow> Inl IndexError | c # cs \<Rightarrow> Inr (PyStr [c]))
      | PyDict d \<Rightarrow> Inl KeyError
      | _ \<Rightarrow> Inl TypeError)"

definition py_keys :: "pyval \<Rightarrow> py_error + string list" where
  "py_keys v = (case v of PyDict d \<Rightarrow> Inr (map fst d) | _ \<Rightarrow> Inl AttributeError)"

text \<open>
  The table part of \<^verbatim>\<open>process_selected_pages\<close> (the same lines are in
  \<^verbatim>\<open>update_metadata\<close>): columns and data of the survey table. The points are sorted by
  \<^verbatim>\<open>md\<close> into a new list; when sorting raises, the table shows the points as they are.
\<close>

definition table_of_survey :: "(string \<Rightarrow> real option) \<Rightarrow> pydict \<Rightarrow> py_error + (pyval list \<times> pyval)" where
  "table_of_survey parse survey =
     (if survey \<noteq> [] \<and> py_in ''survey_points'' survey then
        (case py_getitem survey ''survey_points'' of
           Inl e \<Rightarrow> Inl e
         | Inr points \<Rightarrow>
             if py_truthy points then
               (let table_data = (case py_sorted (md_key parse) points of
                                    Inl e \<Rightarrow> points
                                  | Inr sorted_points \<Rightarrow> PyList sorted_points)
                in case py_first points of
                     Inl e \<Rightarrow> Inl e
                   | Inr p0 \<Rightarrow>
                       (case py_keys p0 of
                          Inl e \<Rightarrow> Inl e
                        | Inr ks \<Rightarrow>
                            Inr (map (\<lambda>k. PyDict [(''name'', PyStr k), (''id'', PyStr k)]) ks,
                                 table_data)))
             else Inr ([], PyList []))
      else Inr ([], PyList []))"

definition meta_keys :: "string list" where
  "meta_keys =
     [''uwi'', ''operator'', ''vendor'', ''lease_location'', ''county'', ''contact_info'',
      ''map_zone'', ''map_system'', ''geo_datum'', ''system_datum'',
      ''shl_x'', ''shl_y'', ''datum_elevation'', ''ground_level_elevation'', ''job_number'',
      ''date_created'']"

text \<open>
  The outputs of \<^verbatim>\<open>process_selected_pages\<close>: the survey store, the table's columns and
  data, the sixteen form values, and the button's state. \<^verbatim>\<open>no_update\<close> leaves a
  component as it is.
\<close>

datatype 'a dash_output = NoUpdate | Output 'a

record process_outputs =
  out_survey :: "pydict dash_output"
  out_table_columns :: "pyval list dash_output"
  out_table_data :: "pyval dash_output"
  out_form_values :: "pyval dash_output list"
  out_disabled :: "bool dash_output"
  out_children :: "string dash_output"

definition all_no_update :: process_outputs where
  "all_no_update =
     \<lparr>out_survey = NoUpdate, out_table_columns = NoUpdate, out_table_data = NoUpdate,
      out_form_values = replicate 16 NoUpdate, out_disabled = NoUpdate,
      out_children = NoUpdate\<rparr>"

text \<open>The \<^verbatim>\<open>except\<close> branch; \<open>msg\<close> is \<^verbatim>\<open>str(e)\<close>.\<close>

definition error_outputs :: "string \<Rightarrow> process_outputs" where
  "error_outputs msg =
     \<lparr>out_survey = Output [(''error'', PyStr msg)], out_table_columns = NoUpdate,
      out_table_data = NoUpdate, out_form_values = replicate 16 NoUpdate,
      out_disabled = Output False, out_children = Output ''Process''\<rparr>"

definition process_selected_pages ::
    "('p \<Rightarrow> structured) \<Rightarrow> (string \<Rightarrow> real option) \<Rightarrow> (py_error \<Rightarrow> string)
     \<Rightarrow> nat option \<Rightarrow> 'p list \<Rightarrow> int list \<Rightarrow> process_outputs" where
  "process_selected_pages ex parse str_of n_clicks pages_data selected_pages =
     (if n_clicks = None \<or> n_clicks = Some 0 \<or> pages_data = [] \<or> selected_pages = []
      then all_no_update
      else
        (case extract_selected_pages_survey ex pages_data selected_pages of
           Inl e \<Rightarrow> error_outputs (str_of e)
         | Inr survey \<Rightarrow>
             (case table_of_survey parse survey of
                Inl e \<Rightarrow> error_outputs (str_of e)
              | Inr (table_columns, table_data) \<Rightarrow>
                  \<lparr>out_survey = Output survey,
                   out_table_columns = Output table_columns,
                   out_table_data = Output table_data,
                   out_form_values =
                     map (\<lambda>k. Output (if survey \<noteq> [] then py_get_default survey k (PyStr '''')
                                        else PyStr '''')) meta_keys,
                   out_disabled = Output False,
                   out_children = Output ''Process''\<rparr>)))"

text \<open>
  \<^verbatim>\<open>update_survey_from_table\<close>, the callback registered on the table's \<^verbatim>\<open>data\<close>
  property with the survey store as state and as output: the store's point list is
  replaced by the table's data.
\<close>

definition update_survey_from_table :: "pyval \<Rightarrow> pydict option \<Rightarrow> pydict option" where
  "update_survey_from_table table_data survey =
     (case survey of
        None \<Rightarrow> None
      | Some s \<Rightarrow>
          if s \<noteq> [] \<and> table_data \<noteq> PyNone
          then Some (AList.update ''survey_points'' table_data s)
          else Some s)"

section \<open>The structured extractor\<close>

text \<open>
  \<^verbatim>\<open>extract_survey_structured\<close> calls \<^verbatim>\<open>text_to_llm\<close> with the model name, the
  \<^verbatim>\<open>DirectionalSurvey\<close> schema and the page text, and returns \<^verbatim>\<open>{}\<close> when the call
  raises. The extraction backend is a black box: the parameter \<open>backend\<close>, which answers
  a model name and a text with an output or with an error.
\<close>

datatype backend_reply = BackendError | BackendOutput pyval

datatype llm_error = BackendFailure | ValidationError

definition SurveyPoint_fields :: "string list" where
  "SurveyPoint_fields = [''md'', ''inc'', ''azi'', ''tvd'', ''ns'', ''ew'']"

definition DirectionalSurvey_fields :: "string list" where
  "DirectionalSurvey_fields =
     [''uwi'', ''survey_points'', ''operator'', ''vendor'', ''contact_info'', ''county'',
      ''method'', ''north_ref'', ''shl_lat'', ''shl_lon'', ''shl_x'', ''shl_y'',
      ''bhl_lat'', ''bhl_lon'', ''bhl_x'', ''bhl_y'', ''lease_location'', ''job_number'',
      ''map_zone'', ''map_system'', ''geo_datum'', ''system_datum'',
      ''ground_level_elevation'', ''datum_elevation'', ''date_created'']"

text \<open>
  Modelled from the spec: validation of a backend output against the schema is done by
  \<^verbatim>\<open>text_to_llm\<close> and pydantic, neither among the sources. The specification: a
  validated instance has all required fields present and correctly typed, absent optional
  fields as explicit nulls; the schema is closed, any field not declared fails the whole
  record (\<^verbatim>\<open>extra = "forbid"\<close> in both models of
  \<^verbatim>\<open>src/models/directionalsurvey.py\<close>).
\<close>

definition is_float :: "pyval \<Rightarrow> bool" where
  "is_float v = (case v of PyFloat r \<Rightarrow> True | _ \<Rightarrow> False)"

definition the_float :: "pyval \<Rightarrow> real" where
  "the_float v = (case v of PyFloat r \<Rightarrow> r | _ \<Rightarrow> 0)"

definition is_optional_str :: "pyval \<Rightarrow> bool" where
  "is_optional_str v = (case v of PyNone \<Rightarrow> True | PyStr s \<Rightarrow> True | _ \<Rightarrow> False)"

definition the_optional_str :: "pyval \<Rightarrow> string option" where
  "the_optional_str v = (case v of PyStr s \<Rightarrow> Some s | _ \<Rightarrow> None)"

definition validate_SurveyPoint :: "pyval \<Rightarrow> SurveyPoint option" where
  "validate_SurveyPoint v =
     (case v of
        PyDict d \<Rightarrow>
          if (\<forall>k \<in> set (map fst d). k \<in> set SurveyPoint_fields)
             \<and> (\<forall>k \<in> set SurveyPoint_fields. py_in k d \<and> is_float (py_get d k))
          then Some \<lparr>md = the_float (py_get d ''md''), inc = the_float (py_get d ''inc''),
                     azi = the_float (py_get d ''azi''), tvd = the_float (py_get d ''tvd''),
                     ns = the_float (py_get d ''ns''), ew = the_float (py_get d ''ew'')\<rparr>
          else None
      | _ \<Rightarrow> None)"

definition validate_points :: "pyval \<Rightarrow> SurveyPoint list option" where
  "validate_points v =
     (case v of
        PyList ps \<Rightarrow>
          if (\<forall>p \<in> set ps. validate_SurveyPoint p \<noteq> None)
          then Some (map (\<lambda>p. the (validate_SurveyPoint p)) ps) else None
      | _ \<Rightarrow> None)"

definition validate_DirectionalSurvey :: "pyval \<Rightarrow> DirectionalSurvey option" where
  "validate_DirectionalSurvey v =
     (case v of
        PyDict d \<Rightarrow>
          if (\<forall>k \<in> set (map fst d). k \<in> set DirectionalSurvey_fields)
             \<and> (case py_get d ''uwi'' of PyStr u \<Rightarrow> True | _ \<Rightarrow> False)
             \<and> validate_points (py_get d ''survey_points'') \<noteq> None
             \<and> (\<forall>k \<in> set (drop 2 DirectionalSurvey_fields). is_optional_str (py_get d k))
          then Some
            \<lparr>uwi = (case py_get d ''uwi'' of PyStr u \<Rightarrow> u | _ \<Rightarrow> ''''),
             survey_points = the (validate_points (py_get d ''survey_points'')),
             operator = the_optional_str (py_get d ''operator''),
             vendor = the_optional_str (py_get d ''vendor''),
             contact_info = the_optional_str (py_get d ''contact_info''),
             county = the_optional_str (py_get d ''county''),
             method = the_optional_str (py_get d ''method''),
             north_ref = the_optional_str (py_get d ''north_ref''),
             shl_lat = the_optional_str (py_get d ''shl_lat''),
             shl_lon = the_optional_str (py_get d ''shl_lon''),
             shl_x = the_optional_str (py_get d ''shl_x''),
             shl_y = the_optional_str (py_get d ''shl_y''),
             bhl_lat = the_optional_str (py_get d ''bhl_lat''),
             bhl_lon = the_optional_str (py_get d ''bhl_lon''),
             bhl_x = the_optional_str (py_get d ''bhl_x''),
             bhl_y = the_optional_str (py_get d ''bhl_y''),
             lease_location = the_optional_str (py_get d ''lease_location''),
             job_number = the_optional_str (py_get d ''job_number''),
             map_zone = the_optional_str (py_get d ''map_zone''),
             map_system = the_optional_str (py_get d ''map_system''),
             geo_datum = the_optional_str (py_get d ''geo_datum''),
             system_datum = the_optional_str (py_get d ''system_datum''),
             ground_level_elevation = the_optional_str (py_get d ''ground_level_elevation''),
             datum_elevation = the_optional_str (py_get d ''datum_elevation''),
             date_created = the_optional_str (py_get d ''date_created'')\<rparr>
          else None
      | _ \<Rightarrow> None)"

text \<open>
  Modelled from the spec: \<^verbatim>\<open>text_to_llm\<close> (\<^verbatim>\<open>services/llm.py\<close>) is not among the
  sources. The specification's Structured Extractor: given the target schema and a text,
  the result is a validated instance of the schema, or a failure when the extraction
  backend errors, returns malformed output, or the output fails schema validation.
\<close>

definition text_to_llm ::
    "(string \<Rightarrow> string \<Rightarrow> backend_reply) \<Rightarrow> string \<Rightarrow> string \<Rightarrow> llm_error + DirectionalSurvey" where
  "text_to_llm backend llm_model text =
     (case backend llm_model text of
        BackendError \<Rightarrow> Inl BackendFailure
      | BackendOutput v \<Rightarrow>
          (case validate_DirectionalSurvey v of
             None \<Rightarrow> Inl ValidationError
           | Some s \<Rightarrow> Inr s))"

definition extract_survey_structured ::
    "(string \<Rightarrow> string \<Rightarrow> backend_reply) \<Rightarrow> string \<Rightarrow> structured" where
  "extract_survey_structured backend text =
     (let llm_model = ''gpt-4.1'' in
      case text_to_llm backend llm_model text of
        Inl e \<Rightarrow> Plain (PyDict [])
      | Inr s \<Rightarrow> Survey s)"

text \<open>
  A backend output with a field outside the schema: a key of the record that is not a
  declared \<^verbatim>\<open>DirectionalSurvey\<close> field, or a key of one of its survey points that is not a
  declared \<^verbatim>\<open>SurveyPoint\<close> field.
\<close>

definition point_has_undeclared_field :: "pyval \<Rightarrow> bool" where
  "point_has_undeclared_field p =
     (case p of PyDict pd \<Rightarrow> (\<exists>k \<in> set (map fst pd). k \<notin> set SurveyPoint_fields) | _ \<Rightarrow> False)"

definition has_undeclared_field :: "pyval \<Rightarrow> bool" where
  "has_undeclared_field v =
     (case v of
        PyDict d \<Rightarrow>
          (\<exists>k \<in> set (map fst d). k \<notin> set DirectionalSurvey_fields)
          \<or> (case py_get d ''survey_points'' of
                PyList ps \<Rightarrow> (\<exists>p \<in> set ps. point_has_undeclared_field p)
              | _ \<Rightarrow> False)
      | _ \<Rightarrow> False)"

definition example_output :: pyval where
  "example_output =
     PyDict [(''uwi'', PyStr ''ABC''), (''survey_points'', PyList []),
             (''elevation_units'', PyStr ''ft'')]"

definition example_backend :: "string \<Rightarrow> string \<Rightarrow> backend_reply" where
  "example_backend llm_model text = BackendOutput example_output"

section \<open>Notions used to state the properties\<close>

text \<open>
  The accumulator \<^verbatim>\<open>merged_metadata\<close> always has the declared fields as its keys, in
  their order: it is the table of some assignment of values to the fields.
\<close>

definition tab :: "(string \<Rightarrow> pyval) \<Rightarrow> pydict" where
  "tab g = map (\<lambda>k. (k, g k)) metadata_fields"

definition merge_value :: "pyval \<Rightarrow> pyval \<Rightarrow> pyval" where
  "merge_value cur val = (if \<not> in_none_or_empty val \<and> in_none_or_empty cur then val else cur)"

fun page_metadata :: "structured \<Rightarrow> pydict" where
  "page_metadata (Survey s) = model_dump s"
| "page_metadata (Plain (PyDict d)) = (if py_in ''survey_points'' d then d else [])"
| "page_metadata (Plain v) = []"

fun page_points :: "structured \<Rightarrow> point_item list" where
  "page_points (Survey s) = map PointModel (survey_points s)"
| "page_points (Plain (PyDict d)) =
     (if py_in ''survey_points'' d
      then (case py_iter (py_get d ''survey_points'') of Inl e \<Rightarrow> [] | Inr xs \<Rightarrow> map PointPlain xs)
      else [])"
| "page_points (Plain v) = []"

fun page_valid :: "structured \<Rightarrow> bool" where
  "page_valid (Survey s) = True"
| "page_valid (Plain (PyDict d)) = py_in ''survey_points'' d"
| "page_valid (Plain v) = False"

fun page_error :: "structured \<Rightarrow> py_error option" where
  "page_error (Survey s) = None"
| "page_error (Plain (PyDict d)) =
     (if py_in ''survey_points'' d
      then (case py_iter (py_get d ''survey_points'') of Inl e \<Rightarrow> Some e | Inr xs \<Rightarrow> None)
      else None)"
| "page_error (Plain v) = None"

definition page_value :: "string \<Rightarrow> structured \<Rightarrow> pyval option" where
  "page_value f p =
     (let v = py_get (page_metadata p) f in if in_none_or_empty v then None else Some v)"

definition fold_values :: "string \<Rightarrow> structured list \<Rightarrow> pyval \<Rightarrow> pyval" where
  "fold_values k outs cur = fold (\<lambda>p c. merge_value c (py_get (page_metadata p) k)) outs cur"

definition pages_in_selection :: "'p list \<Rightarrow> int list \<Rightarrow> 'p list" where
  "pages_in_selection pages_data sel =
     concat (map (\<lambda>i. if i \<ge> int (length pages_data) then []
                       else (case py_index pages_data i of Inl e \<Rightarrow> [] | Inr p \<Rightarrow> [p])) sel)"

text \<open>The two pages of the specification's merge scenario.\<close>

definition example_point :: SurveyPoint where
  "example_point = \<lparr>md = 100, inc = 0, azi = 0, tvd = 100, ns = 0, ew = 0\<rparr>"

definition example_P1 :: DirectionalSurvey where
  "example_P1 =
     \<lparr>uwi = ''ABC'', survey_points = [], operator = None, vendor = None, contact_info = None,
      county = None, method = None, north_ref = None, shl_lat = None, shl_lon = None,
      shl_x = None, shl_y = None, bhl_lat = None, bhl_lon = None, bhl_x = None, bhl_y = None,
      lease_location = None, job_number = None, map_zone = None, map_system = None,
      geo_datum = None, system_datum = None, ground_level_elevation = None,
      datum_elevation = None, date_created = None\<rparr>"

definition example_P2 :: DirectionalSurvey where
  "example_P2 = example_P1\<lparr>uwi := ''XYZ'', survey_points := [example_point]\<rparr>"

definition example_merged :: pydict where
  "example_merged =
     [(''uwi'', PyStr ''ABC''),
      (''survey_points'', PyList [SurveyPoint_model_dump example_point])]"

definition example_P3 :: DirectionalSurvey where
  "example_P3 = example_P1\<lparr>uwi := ''DEF''\<rparr>"

text \<open>
  A page whose two points are listed deeper point first, a \<^verbatim>\<open>float\<close> that reads no
  string, and a \<^verbatim>\<open>str\<close> of exceptions, for the table scenario.
\<close>

definition example_deep_point :: SurveyPoint where
  "example_deep_point = \<lparr>md = 200, inc = 0, azi = 0, tvd = 200, ns = 0, ew = 0\<rparr>"

definition example_Q :: DirectionalSurvey where
  "example_Q = example_P1\<lparr>survey_points := [example_deep_point, example_point]\<rparr>"

definition example_parse :: "string \<Rightarrow> real option" where
  "example_parse s = None"

definition example_str :: "py_error \<Rightarrow> string" where
  "example_str e = ''error''"

definition example_stored :: pydict where
  "example_stored =
     [(''uwi'', PyStr ''ABC''),
      (''survey_points'',
       PyList [SurveyPoint_model_dump example_deep_point, SurveyPoint_model_dump example_point])]"

definition example_displayed :: pyval where
  "example_displayed =
     PyList [SurveyPoint_model_dump example_point, SurveyPoint_model_dump example_deep_point]"

section \<open>Properties\<close>

lemma init_metadata_fields:
  "init_metadata metadata_fields = map (\<lambda>f. (f, PyNone)) metadata_fields"
  by (simp add: init_metadata_def metadata_fields_def)

lemma distinct_metadata_fields: "distinct metadata_fields"
  by (simp add: metadata_fields_def)

lemma tab_init: "init_metadata metadata_fields = tab (\<lambda>k. PyNone)"
  by (simp add: init_metadata_fields tab_def)

lemma map_of_tab_gen: "map_of (map (\<lambda>k. (k, g k)) fs) k = (if k \<in> set fs then Some (g k) else None)"
  by (induction fs) auto

lemma map_of_tab: "map_of (tab g) k = (if k \<in> set metadata_fields then Some (g k) else None)"
  unfolding tab_def by (rule map_of_tab_gen)

lemma update_tab_gen:
  "distinct fs \<Longrightarrow> f \<in> set fs \<Longrightarrow>
   AList.update f v (map (\<lambda>k. (k, g k)) fs) = map (\<lambda>k. (k, (g(f := v)) k)) fs"
  by (induction fs) auto

lemma update_tab: "f \<in> set metadata_fields \<Longrightarrow> AList.update f v (tab g) = tab (g(f := v))"
  unfolding tab_def by (rule update_tab_gen[OF distinct_metadata_fields])

lemma tab_cong: "(\<And>k. k \<in> set metadata_fields \<Longrightarrow> g k = h k) \<Longrightarrow> tab g = tab h"
  unfolding tab_def by simp

lemma merge_fields_tab_gen:
  "set fs \<subseteq> set metadata_fields \<Longrightarrow>
   merge_fields pm fs (tab g) =
     Inr (tab (\<lambda>k. if k \<in> set fs then merge_value (g k) (py_get pm k) else g k))"
proof (induction fs arbitrary: g)
  case Nil
  show ?case by simp
next
  case (Cons f fs)
  have f: "f \<in> set metadata_fields" and fs: "set fs \<subseteq> set metadata_fields"
    using Cons.prems by auto
  have get: "py_getitem (tab g) f = Inr (g f)"
    using f by (simp add: py_getitem_def map_of_tab)
  show ?case
    by (auto simp add: Let_def get update_tab[OF f] Cons.IH[OF fs] merge_value_def
        intro!: tab_cong)
qed

lemma merge_fields_tab:
  "merge_fields pm metadata_fields (tab g) = Inr (tab (\<lambda>k. merge_value (g k) (py_get pm k)))"
  by (simp add: merge_fields_tab_gen cong: tab_cong)

lemma py_getitem_get: "py_in k d \<Longrightarrow> py_getitem d k = Inr (py_get d k)"
  by (auto simp: py_in_def py_getitem_def py_get_def)

lemma merge_points_closed:
  "merge_points pts p =
     (case page_error p of
        Some e \<Rightarrow> Inl e
      | None \<Rightarrow> Inr (pts @ page_points p, page_metadata p, page_valid p))"
proof (cases p)
  case (Survey s)
  then show ?thesis by simp
next
  case (Plain v)
  then show ?thesis
    by (cases v) (auto simp: py_getitem_get split: sum.splits)
qed

lemma merge_page_closed:
  assumes "merged_metadata st = tab g"
  shows "merge_page w p st =
     (case page_error p of
        Some e \<Rightarrow> Inl e
      | None \<Rightarrow>
          Inr \<lparr>all_survey_points = all_survey_points st @ page_points p,
               merged_metadata = tab (\<lambda>k. merge_value (g k) (py_get (page_metadata p) k)),
               warnings = (if w \<and> \<not> page_valid p then warnings st @ [NoValidData]
                           else warnings st)\<rparr>)"
  by (simp add: merge_page_def merge_points_closed assms merge_fields_tab split: option.splits)

lemma fold_values_Nil: "fold_values k [] cur = cur"
  by (simp add: fold_values_def)

lemma fold_values_Cons:
  "fold_values k (p # ps) cur = fold_values k ps (merge_value cur (py_get (page_metadata p) k))"
  by (simp add: fold_values_def)

lemma merge_loop_closed:
  assumes "merge_loop ex images st = Inr st'" and "merged_metadata st = tab g"
  shows "all_survey_points st' = all_survey_points st @ concat (map (\<lambda>p. page_points (ex p)) images)
       \<and> merged_metadata st' = tab (\<lambda>k. fold_values k (map ex images) (g k))
       \<and> warnings st' = warnings st
       \<and> (\<forall>p \<in> set images. page_error (ex p) = None)"
  using assms
proof (induction images arbitrary: st g)
  case Nil
  then show ?case by (simp add: fold_values_Nil)
next
  case (Cons img images)
  from Cons.prems obtain st1 where
    st1: "merge_page False (ex img) st = Inr st1" and rest: "merge_loop ex images st1 = Inr st'"
    by (auto split: sum.splits)
  from st1 Cons.prems(2) have err: "page_error (ex img) = None"
    and pts1: "all_survey_points st1 = all_survey_points st @ page_points (ex img)"
    and md1: "merged_metadata st1 = tab (\<lambda>k. merge_value (g k) (py_get (page_metadata (ex img)) k))"
    and w1: "warnings st1 = warnings st"
    by (auto simp: merge_page_closed[OF Cons.prems(2)] split: option.splits)
  from Cons.IH[OF rest md1] show ?case
    by (simp add: pts1 w1 err fold_values_Cons)
qed

lemma merge_loop_total:
  assumes "\<forall>p \<in> set images. page_error (ex p) = None" and "merged_metadata st = tab g"
  shows "\<exists>st'. merge_loop ex images st = Inr st'"
  using assms
proof (induction images arbitrary: st g)
  case Nil
  then show ?case by simp
next
  case (Cons img images)
  have err: "page_error (ex img) = None" using Cons.prems(1) by simp
  obtain st1 where st1: "merge_page False (ex img) st = Inr st1"
    and md1: "merged_metadata st1 = tab (\<lambda>k. merge_value (g k) (py_get (page_metadata (ex img)) k))"
    by (simp add: merge_page_closed[OF Cons.prems(2)] err)
  from Cons.IH[OF _ md1] Cons.prems(1) obtain st' where "merge_loop ex images st1 = Inr st'"
    by auto
  then show ?case by (simp add: st1)
qed

lemma pages_in_selection_Nil: "pages_in_selection pages_data [] = []"
  by (simp add: pages_in_selection_def)

lemma selected_loop_closed:
  assumes "selected_loop ex pages_data sel st = Inr st'" and "merged_metadata st = tab g"
  shows "all_survey_points st' =
           all_survey_points st @ concat (map (\<lambda>p. page_points (ex p)) (pages_in_selection pages_data sel))
       \<and> merged_metadata st' = tab (\<lambda>k. fold_values k (map ex (pages_in_selection pages_data sel)) (g k))
       \<and> (\<forall>p \<in> set (pages_in_selection pages_data sel). page_error (ex p) = None)
       \<and> (\<forall>i \<in> set sel. - int (length pages_data) \<le> i)"
  using assms
proof (induction sel arbitrary: st g)
  case Nil
  then show ?case by (simp add: fold_values_Nil pages_in_selection_Nil)
next
  case (Cons i sel)
  show ?case
  proof (cases "i \<ge> int (length pages_data)")
    case True
    let ?st1 = "st\<lparr>warnings := warnings st @ [OutOfRange i]\<rparr>"
    have rest: "selected_loop ex pages_data sel ?st1 = Inr st'"
      using Cons.prems(1) True by simp
    have md1: "merged_metadata ?st1 = tab g" using Cons.prems(2) by simp
    have sp: "pages_in_selection pages_data (i # sel) = pages_in_selection pages_data sel"
      using True by (simp add: pages_in_selection_def)
    from Cons.IH[OF rest md1] True show ?thesis
      by (simp add: sp)
  next
    case False
    from Cons.prems(1) False obtain page st1 where
      pg: "py_index pages_data i = Inr page" and
      st1: "merge_page True (ex page) st = Inr st1" and
      rest: "selected_loop ex pages_data sel st1 = Inr st'"
      by (auto split: sum.splits)
    have sp: "pages_in_selection pages_data (i # sel) = page # pages_in_selection pages_data sel"
      using False pg by (simp add: pages_in_selection_def)
    have lo: "- int (length pages_data) \<le> i"
      using pg by (auto simp: py_index_def split: if_splits)
    from st1 Cons.prems(2) have err: "page_error (ex page) = None"
      and pts1: "all_survey_points st1 = all_survey_points st @ page_points (ex page)"
      and md1: "merged_metadata st1 = tab (\<lambda>k. merge_value (g k) (py_get (page_metadata (ex page)) k))"
      by (auto simp: merge_page_closed[OF Cons.prems(2)] split: option.splits)
    from Cons.IH[OF rest md1] show ?thesis
      by (simp add: sp pts1 err lo fold_values_Cons)
  qed
qed


lemma selected_loop_total:
  assumes "\<forall>p \<in> set (pages_in_selection pages_data sel). page_error (ex p) = None"
    and "\<forall>i \<in> set sel. - int (length pages_data) \<le> i"
    and "merged_metadata st = tab g"
  shows "\<exists>st'. selected_loop ex pages_data sel st = Inr st'"
  using assms
proof (induction sel arbitrary: st g)
  case Nil
  then show ?case by simp
next
  case (Cons i sel)
  show ?case
  proof (cases "i \<ge> int (length pages_data)")
    case True
    let ?st1 = "st\<lparr>warnings := warnings st @ [OutOfRange i]\<rparr>"
    have md1: "merged_metadata ?st1 = tab g" using Cons.prems(3) by simp
    have sp: "pages_in_selection pages_data (i # sel) = pages_in_selection pages_data sel"
      using True by (simp add: pages_in_selection_def)
    from Cons.IH[OF _ _ md1] Cons.prems(1,2) sp
    obtain st' where "selected_loop ex pages_data sel ?st1 = Inr st'" by auto
    then show ?thesis using True by simp
  next
    case False
    have lo: "- int (length pages_data) \<le> i" using Cons.prems(2) by simp
    have "\<exists>page. py_index pages_data i = Inr page"
      using False lo by (simp add: py_index_def)
    then obtain page where pg: "py_index pages_data i = Inr page" ..
    have sp: "pages_in_selection pages_data (i # sel) = page # pages_in_selection pages_data sel"
      using False pg by (simp add: pages_in_selection_def)
    have err: "page_error (ex page) = None" using Cons.prems(1) sp by simp
    obtain st1 where st1: "merge_page True (ex page) st = Inr st1"
      and md1: "merged_metadata st1 = tab (\<lambda>k. merge_value (g k) (py_get (page_metadata (ex page)) k))"
      by (simp add: merge_page_closed[OF Cons.prems(3)] err)
    from Cons.IH[OF _ _ md1] Cons.prems(1,2) sp
    obtain st' where "selected_loop ex pages_data sel st1 = Inr st'" by auto
    then show ?thesis using False pg st1 by simp
  qed
qed

lemma survey_points_not_field: "''survey_points'' \<notin> set metadata_fields"
  by (simp add: metadata_fields_def)

lemma update_fresh: "k \<notin> fst ` set al \<Longrightarrow> AList.update k v al = al @ [(k, v)]"
  by (induction al) auto

lemma finalize_closed:
  assumes "merged_metadata st = tab h"
  shows "finalize st =
           filter (\<lambda>kv. \<not> in_none_or_empty (snd kv)) (tab h) @
           (if all_survey_points st \<noteq> []
            then [(''survey_points'', PyList (map dump_point (all_survey_points st)))] else [])"
proof -
  have "''survey_points'' \<notin> fst ` set (filter (\<lambda>kv. \<not> in_none_or_empty (snd kv)) (tab h))"
    using survey_points_not_field by (auto simp: tab_def)
  then show ?thesis
    by (simp add: finalize_def assms Let_def update_fresh)
qed

lemma map_of_filter_tab_gen:
  "map_of (filter (\<lambda>kv. \<not> in_none_or_empty (snd kv)) (map (\<lambda>k. (k, h k)) fs)) k =
     (if k \<in> set fs \<and> \<not> in_none_or_empty (h k) then Some (h k) else None)"
  by (induction fs) auto

lemma map_of_filter_tab:
  "map_of (filter (\<lambda>kv. \<not> in_none_or_empty (snd kv)) (tab h)) k =
     (if k \<in> set metadata_fields \<and> \<not> in_none_or_empty (h k) then Some (h k) else None)"
  unfolding tab_def by (rule map_of_filter_tab_gen)

lemma map_of_finalize_field:
  assumes "merged_metadata st = tab h" and "k \<in> set metadata_fields"
  shows "map_of (finalize st) k = (if in_none_or_empty (h k) then None else Some (h k))"
proof -
  have "k \<noteq> ''survey_points''" using assms(2) survey_points_not_field by auto
  then show ?thesis
    using assms(2) by (simp add: finalize_closed[OF assms(1)] map_of_filter_tab map_add_def)
qed

lemma map_of_finalize_points:
  assumes "merged_metadata st = tab h"
  shows "map_of (finalize st) ''survey_points'' =
           (if all_survey_points st = [] then None
            else Some (PyList (map dump_point (all_survey_points st))))"
  using survey_points_not_field
  by (simp add: finalize_closed[OF assms] map_of_filter_tab map_add_def)

lemma set_finalize:
  assumes "merged_metadata st = tab h" and "(k, v) \<in> set (finalize st)"
  shows "k \<in> set metadata_fields \<and> v = h k \<and> \<not> in_none_or_empty v
       \<or> k = ''survey_points'' \<and> all_survey_points st \<noteq> []
           \<and> v = PyList (map dump_point (all_survey_points st))"
  using assms(2) by (auto simp: finalize_closed[OF assms(1)] tab_def split: if_splits)

lemma run_closed:
  assumes "extract_and_merge_survey ex images = Inr merged \<and> outs = map ex images
         \<or> extract_selected_pages_survey ex pages_data sel = Inr merged
           \<and> outs = map ex (pages_in_selection pages_data sel)"
  shows "\<exists>st. merged = finalize st
            \<and> all_survey_points st = concat (map page_points outs)
            \<and> merged_metadata st = tab (\<lambda>k. fold_values k outs PyNone)
            \<and> (\<forall>p \<in> set outs. page_error p = None)"
  using assms
proof
  assume a: "extract_and_merge_survey ex images = Inr merged \<and> outs = map ex images"
  then obtain st where st: "merge_loop ex images init_state = Inr st" and m: "merged = finalize st"
    by (auto simp: extract_and_merge_survey_def split: sum.splits)
  have i: "merged_metadata init_state = tab (\<lambda>k. PyNone)"
    by (simp add: init_state_def tab_init)
  from merge_loop_closed[OF st i] a m show ?thesis
    by (auto simp: init_state_def comp_def intro!: exI[of _ st])
next
  assume a: "extract_selected_pages_survey ex pages_data sel = Inr merged
           \<and> outs = map ex (pages_in_selection pages_data sel)"
  then obtain st where st: "selected_loop ex pages_data sel init_state = Inr st"
    and m: "merged = finalize st"
    by (auto simp: extract_selected_pages_survey_def split: sum.splits)
  have i: "merged_metadata init_state = tab (\<lambda>k. PyNone)"
    by (simp add: init_state_def tab_init)
  from selected_loop_closed[OF st i] a m show ?thesis
    by (auto simp: init_state_def comp_def intro!: exI[of _ st])
qed

lemma merge_value_keep: "\<not> in_none_or_empty cur \<Longrightarrow> merge_value cur val = cur"
  by (simp add: merge_value_def)

lemma fold_values_keep: "\<not> in_none_or_empty cur \<Longrightarrow> fold_values k outs cur = cur"
  by (induction outs) (simp_all add: fold_values_Nil fold_values_Cons merge_value_keep)

lemma fold_values_none:
  "\<forall>p \<in> set outs. page_value k p = None \<Longrightarrow> fold_values k outs cur = cur"
  by (induction outs)
     (auto simp: fold_values_Nil fold_values_Cons merge_value_def page_value_def Let_def
           split: if_splits)

lemma fold_values_append:
  "fold_values k (xs @ ys) cur = fold_values k ys (fold_values k xs cur)"
  by (simp add: fold_values_def)

lemma fold_values_first:
  assumes "i < length outs" and "page_value k (outs ! i) = Some v"
    and "\<forall>j < i. page_value k (outs ! j) = None"
  shows "fold_values k outs PyNone = v"
proof -
  have split: "outs = take i outs @ outs ! i # drop (Suc i) outs"
    using assms(1) by (simp add: id_take_nth_drop)
  have pre: "\<forall>p \<in> set (take i outs). page_value k p = None"
    using assms(1,3) by (auto simp: in_set_conv_nth)
  have v: "py_get (page_metadata (outs ! i)) k = v" and ne: "\<not> in_none_or_empty v"
    using assms(2) by (auto simp: page_value_def Let_def split: if_splits)
  have mv: "merge_value PyNone v = v"
    using ne by (simp add: merge_value_def in_none_or_empty_def)
  have "fold_values k outs PyNone =
        fold_values k (drop (Suc i) outs)
          (merge_value (fold_values k (take i outs) PyNone) (py_get (page_metadata (outs ! i)) k))"
    by (subst split) (simp add: fold_values_append fold_values_Cons)
  also have "\<dots> = fold_values k (drop (Suc i) outs) v"
    by (simp add: fold_values_none[OF pre] v mv)
  also have "\<dots> = v" by (rule fold_values_keep[OF ne])
  finally show ?thesis .
qed

lemma finalize_init_state: "finalize init_state = []"
  by (simp add: finalize_def init_state_def init_metadata_fields in_none_or_empty_def)

text \<open>
  C7. Processing an empty selection of page indices returns the empty record: no
  survey points, no metadata field, and no error, whatever the page set.
\<close>

theorem empty_selection_empty_record:
  "extract_selected_pages_survey ex pages_data [] = Inr []"
  by (simp add: extract_selected_pages_survey_def finalize_init_state)

lemmas eval_defs =
  extract_and_merge_survey_def extract_selected_pages_survey_def merge_page_def
  init_state_def init_metadata_def metadata_fields_def finalize_def
  model_dump_def opt_str_def py_get_def py_getitem_def py_in_def py_index_def
  in_none_or_empty_def example_P1_def example_P2_def Let_def

text \<open>
  C1. For every ordered sequence of per-page outcomes, of either merge function, and every
  declared metadata field: when page \<open>i\<close> is the first page, in page order, whose outcome
  gives the field a value that is neither \<^verbatim>\<open>None\<close> nor \<^verbatim>\<open>""\<close>, the merged record
  holds that value for the field, whatever later pages say. The outcomes are those of the
  pages the function processes; a page without valid structured data gives no value.
\<close>

theorem first_nonempty_metadata_wins:
  assumes "extract_and_merge_survey ex images = Inr merged \<and> outs = map ex images
         \<or> extract_selected_pages_survey ex pages_data sel = Inr merged
           \<and> outs = map ex (pages_in_selection pages_data sel)"
    and "f \<in> set metadata_fields"
    and "i < length outs"
    and "page_value f (outs ! i) = Some v"
    and "\<forall>j < i. page_value f (outs ! j) = None"
  shows "py_getitem merged f = Inr v"
proof -
  from run_closed[OF assms(1)] obtain st where m: "merged = finalize st"
    and md: "merged_metadata st = tab (\<lambda>k. fold_values k outs PyNone)"
    by blast
  have ne: "\<not> in_none_or_empty v"
    using assms(4) by (auto simp: page_value_def Let_def split: if_splits)
  show ?thesis
    by (simp add: m py_getitem_def map_of_finalize_field[OF md assms(2)]
        fold_values_first[OF assms(3,4,5)] ne)
qed

text \<open>
  The scenario of the specification: P1 has \<^verbatim>\<open>uwi = "ABC"\<close> and no points, P2 has
  \<^verbatim>\<open>uwi = "XYZ"\<close> and one point; merged in the order P1, P2 the \<^verbatim>\<open>uwi\<close> is \<^verbatim>\<open>"ABC"\<close>.
\<close>

theorem first_nonempty_metadata_wins_witness:
  "extract_and_merge_survey id [Survey example_P1, Survey example_P2] =
     Inr [(''uwi'', PyStr ''ABC''),
          (''survey_points'', PyList [SurveyPoint_model_dump example_point])]
   \<and> py_getitem [(''uwi'', PyStr ''ABC''),
          (''survey_points'', PyList [SurveyPoint_model_dump example_point])] ''uwi''
       = Inr (PyStr ''ABC'')"
proof -
  have run: "extract_and_merge_survey id [Survey example_P1, Survey example_P2] =
     Inr [(''uwi'', PyStr ''ABC''),
          (''survey_points'', PyList [SurveyPoint_model_dump example_point])]"
    by (simp add: eval_defs)
  have f: "''uwi'' \<in> set metadata_fields" by (simp add: metadata_fields_def)
  have v: "page_value ''uwi'' ([Survey example_P1, Survey example_P2] ! 0) = Some (PyStr ''ABC'')"
    by (simp add: page_value_def eval_defs)
  from first_nonempty_metadata_wins[where ex = id and images = "[Survey example_P1, Survey example_P2]"
      and outs = "[Survey example_P1, Survey example_P2]" and f = "''uwi''" and i = 0
      and v = "PyStr ''ABC''", OF _ f _ v] run
  show ?thesis by simp
qed

lemma run_closed_state:
  assumes "extract_and_merge_survey ex images = Inr merged \<and> outs = map ex images
         \<or> extract_selected_pages_survey ex pages_data sel = Inr merged
           \<and> outs = map ex (pages_in_selection pages_data sel)"
  shows "\<exists>st. (merge_loop ex images init_state = Inr st
               \<or> selected_loop ex pages_data sel init_state = Inr st)
            \<and> merged = finalize st
            \<and> merged_metadata st = tab (\<lambda>k. fold_values k outs PyNone)"
  using assms
proof
  assume a: "extract_and_merge_survey ex images = Inr merged \<and> outs = map ex images"
  then obtain st where st: "merge_loop ex images init_state = Inr st" and m: "merged = finalize st"
    by (auto simp: extract_and_merge_survey_def split: sum.splits)
  have i: "merged_metadata init_state = tab (\<lambda>k. PyNone)"
    by (simp add: init_state_def tab_init)
  from merge_loop_closed[OF st i] a m st show ?thesis
    by (auto intro!: exI[of _ st])
next
  assume a: "extract_selected_pages_survey ex pages_data sel = Inr merged
           \<and> outs = map ex (pages_in_selection pages_data sel)"
  then obtain st where st: "selected_loop ex pages_data sel init_state = Inr st"
    and m: "merged = finalize st"
    by (auto simp: extract_selected_pages_survey_def split: sum.splits)
  have i: "merged_metadata init_state = tab (\<lambda>k. PyNone)"
    by (simp add: init_state_def tab_init)
  from selected_loop_closed[OF st i] a m st show ?thesis
    by (auto intro!: exI[of _ st])
qed

lemma count_list_concat:
  "count_list (concat xss) x = sum_list (map (\<lambda>xs. count_list xs x) xss)"
  by (induction xss) simp_all

lemma invalid_page:
  "\<not> page_valid p \<Longrightarrow> page_metadata p = [] \<and> page_points p = [] \<and> page_error p = None"
proof (cases p)
  case (Survey s)
  assume "\<not> page_valid p"
  with Survey show ?thesis by simp
next
  case (Plain v)
  assume "\<not> page_valid p"
  with Plain show ?thesis by (cases v) auto
qed

lemma fold_values_invalid:
  "\<forall>p \<in> set outs. \<not> page_valid p \<Longrightarrow> fold_values k outs cur = cur"
  by (rule fold_values_none) (simp add: page_value_def invalid_page py_get_def in_none_or_empty_def)

lemma filter_tab_none: "filter (\<lambda>kv. \<not> in_none_or_empty (snd kv)) (tab (\<lambda>k. PyNone)) = []"
  by (simp add: tab_def in_none_or_empty_def)

lemma filter_tab_cong_gen:
  "(\<And>k. k \<in> set fs \<Longrightarrow> (\<not> in_none_or_empty (h k) \<longrightarrow> h2 k = h k)
        \<and> (in_none_or_empty (h k) \<longrightarrow> in_none_or_empty (h2 k))) \<Longrightarrow>
   filter (\<lambda>kv. \<not> in_none_or_empty (snd kv)) (map (\<lambda>k. (k, h2 k)) fs) =
   filter (\<lambda>kv. \<not> in_none_or_empty (snd kv)) (map (\<lambda>k. (k, h k)) fs)"
  by (induction fs) auto

lemma filter_tab_cong:
  "(\<And>k. k \<in> set metadata_fields \<Longrightarrow> (\<not> in_none_or_empty (h k) \<longrightarrow> h2 k = h k)
        \<and> (in_none_or_empty (h k) \<longrightarrow> in_none_or_empty (h2 k))) \<Longrightarrow>
   filter (\<lambda>kv. \<not> in_none_or_empty (snd kv)) (tab h2) =
   filter (\<lambda>kv. \<not> in_none_or_empty (snd kv)) (tab h)"
  unfolding tab_def by (rule filter_tab_cong_gen)

lemma init_state_tab: "merged_metadata init_state = tab (\<lambda>k. PyNone)"
  by (simp add: init_state_def tab_init)

lemma init_state_points: "all_survey_points init_state = []"
  by (simp add: init_state_def)

lemma finalize_warnings:
  "finalize \<lparr>all_survey_points = pts, merged_metadata = mm, warnings = ws\<rparr> =
   finalize \<lparr>all_survey_points = pts, merged_metadata = mm, warnings = []\<rparr>"
  by (simp add: finalize_def Let_def)

lemma single_page_whole:
  assumes "page_error (ex p) = None"
  shows "extract_and_merge_survey ex [p] =
           Inr (finalize \<lparr>all_survey_points = page_points (ex p),
                  merged_metadata = tab (\<lambda>k. merge_value PyNone (py_get (page_metadata (ex p)) k)),
                  warnings = []\<rparr>)"
  by (simp add: extract_and_merge_survey_def merge_page_closed[OF init_state_tab] assms
      init_state_points finalize_warnings[of _ _ "warnings init_state"])

lemma single_page_selected:
  assumes "page_error (ex p) = None"
  shows "extract_selected_pages_survey ex [p] [0] =
           Inr (finalize \<lparr>all_survey_points = page_points (ex p),
                  merged_metadata = tab (\<lambda>k. merge_value PyNone (py_get (page_metadata (ex p)) k)),
                  warnings = []\<rparr>)"
  by (simp add: extract_selected_pages_survey_def merge_page_closed[OF init_state_tab] assms
      init_state_points py_index_def finalize_warnings[of _ _ "warnings init_state"]
      finalize_warnings[of _ _ "warnings init_state @ [NoValidData]"])

lemma finalize_cong:
  assumes "merged_metadata st = tab h" and "merged_metadata st2 = tab h2"
    and "map dump_point (all_survey_points st2) = map dump_point (all_survey_points st)"
    and "\<And>k. k \<in> set metadata_fields \<Longrightarrow> (\<not> in_none_or_empty (h k) \<longrightarrow> h2 k = h k)
        \<and> (in_none_or_empty (h k) \<longrightarrow> in_none_or_empty (h2 k))"
  shows "finalize st2 = finalize st"
proof -
  have "all_survey_points st2 = [] \<longleftrightarrow> all_survey_points st = []"
    using assms(3) by (metis map_is_Nil_conv)
  then show ?thesis
    by (simp add: finalize_closed[OF assms(1)] finalize_closed[OF assms(2)] assms(3)
        filter_tab_cong[of h h2, OF assms(4)])
qed

lemma remerge_state:
  assumes md: "merged_metadata st = tab h"
    and ok: "all_survey_points st \<noteq> [] \<or> finalize st = []"
    and q: "q = Plain (PyDict (finalize st))"
  shows "page_error q = None"
    and "map dump_point (page_points q) = map dump_point (all_survey_points st)"
    and "\<And>k. k \<in> set metadata_fields \<Longrightarrow>
          (\<not> in_none_or_empty (h k) \<longrightarrow> merge_value PyNone (py_get (page_metadata q) k) = h k)
        \<and> (in_none_or_empty (h k) \<longrightarrow>
             in_none_or_empty (merge_value PyNone (py_get (page_metadata q) k)))"
proof -
  show "page_error q = None"
    by (simp add: q py_in_def py_get_def map_of_finalize_points[OF md])
  show "map dump_point (page_points q) = map dump_point (all_survey_points st)"
  proof (cases "all_survey_points st = []")
    case True
    then show ?thesis
      by (simp add: q py_in_def map_of_finalize_points[OF md])
  next
    case False
    then show ?thesis
      by (simp add: q py_in_def py_get_def map_of_finalize_points[OF md] comp_def)
  qed
  fix k assume k: "k \<in> set metadata_fields"
  show "(\<not> in_none_or_empty (h k) \<longrightarrow> merge_value PyNone (py_get (page_metadata q) k) = h k)
        \<and> (in_none_or_empty (h k) \<longrightarrow>
             in_none_or_empty (merge_value PyNone (py_get (page_metadata q) k)))"
  proof (cases "all_survey_points st = []")
    case True
    with ok have "finalize st = []" by simp
    then have "map_of (finalize st) k = None" by simp
    then have "in_none_or_empty (h k)"
      by (simp add: map_of_finalize_field[OF md k] split: if_splits)
    moreover have "page_metadata q = []"
      using True by (simp add: q py_in_def map_of_finalize_points[OF md])
    ultimately show ?thesis
      by (simp add: merge_value_def py_get_def in_none_or_empty_def)
  next
    case False
    then have pm: "page_metadata q = finalize st"
      by (simp add: q py_in_def map_of_finalize_points[OF md])
    show ?thesis
      by (simp add: pm py_get_def map_of_finalize_field[OF md k] merge_value_def
          in_none_or_empty_def)
  qed
qed

lemma example_run:
  "extract_and_merge_survey id [Survey example_P1, Survey example_P2] = Inr example_merged"
  by (simp add: eval_defs example_merged_def)

lemma example_run_twice:
  "extract_and_merge_survey id [Survey example_P2, Survey example_P2] =
     Inr [(''uwi'', PyStr ''XYZ''),
          (''survey_points'',
           PyList [SurveyPoint_model_dump example_point, SurveyPoint_model_dump example_point])]"
  by (simp add: eval_defs)

text \<open>
  C2. For every ordered sequence of per-page outcomes, of either merge function, the point
  list of the merged record (empty when the key is absent) is the concatenation, in page
  order, of the points of the pages with valid structured data. Nothing is removed: every
  value occurs as often as on all pages together.
\<close>

theorem points_concatenated_in_page_order:
  assumes "extract_and_merge_survey ex images = Inr merged \<and> outs = map ex images
         \<or> extract_selected_pages_survey ex pages_data sel = Inr merged
           \<and> outs = map ex (pages_in_selection pages_data sel)"
  shows "\<exists>pts. py_get_default merged ''survey_points'' (PyList []) = PyList pts
              \<and> pts = concat (map (\<lambda>p. map dump_point (page_points p)) outs)
              \<and> (\<forall>x. count_list pts x =
                     sum_list (map (\<lambda>p. count_list (map dump_point (page_points p)) x) outs))"
proof -
  from run_closed[OF assms] obtain st where m: "merged = finalize st"
    and pts: "all_survey_points st = concat (map page_points outs)"
    and md: "merged_metadata st = tab (\<lambda>k. fold_values k outs PyNone)"
    by blast
  have "py_get_default merged ''survey_points'' (PyList []) =
          PyList (map dump_point (concat (map page_points outs)))"
    by (simp add: m py_get_default_def map_of_finalize_points[OF md] pts)
  then show ?thesis
    by (simp add: map_concat comp_def count_list_concat)
qed

theorem points_concatenated_in_page_order_witness:
  "extract_and_merge_survey id [Survey example_P2, Survey example_P2] =
     Inr [(''uwi'', PyStr ''XYZ''),
          (''survey_points'',
           PyList [SurveyPoint_model_dump example_point, SurveyPoint_model_dump example_point])]
   \<and> py_get_default [(''uwi'', PyStr ''XYZ''),
          (''survey_points'',
           PyList [SurveyPoint_model_dump example_point, SurveyPoint_model_dump example_point])]
        ''survey_points'' (PyList [])
       = PyList [SurveyPoint_model_dump example_point, SurveyPoint_model_dump example_point]"
  using points_concatenated_in_page_order[where ex = id
      and images = "[Survey example_P2, Survey example_P2]"
      and outs = "[Survey example_P2, Survey example_P2]"
      and merged = "[(''uwi'', PyStr ''XYZ''),
          (''survey_points'',
           PyList [SurveyPoint_model_dump example_point, SurveyPoint_model_dump example_point])]"]
    example_run_twice
  by (simp add: example_P2_def)

text \<open>
  C5. A declared metadata field that no page gives a value other than \<^verbatim>\<open>None\<close> and
  \<^verbatim>\<open>""\<close> is not a key of the merged record; no key of the merged record holds
  \<^verbatim>\<open>None\<close>. The accumulator the record was cleaned from does hold \<^verbatim>\<open>None\<close> for
  that field.
\<close>

theorem unobserved_field_omitted:
  assumes "extract_and_merge_survey ex images = Inr merged \<and> outs = map ex images
         \<or> extract_selected_pages_survey ex pages_data sel = Inr merged
           \<and> outs = map ex (pages_in_selection pages_data sel)"
    and "f \<in> set metadata_fields"
    and "\<forall>p \<in> set outs. page_value f p = None"
  shows "\<not> py_in f merged
       \<and> (\<forall>k. map_of merged k \<noteq> Some PyNone)
       \<and> (\<exists>st. (merge_loop ex images init_state = Inr st
                  \<or> selected_loop ex pages_data sel init_state = Inr st)
               \<and> merged = finalize st
               \<and> py_getitem (merged_metadata st) f = Inr PyNone)"
proof -
  from run_closed_state[OF assms(1)] obtain st where
    loop: "merge_loop ex images init_state = Inr st
         \<or> selected_loop ex pages_data sel init_state = Inr st"
    and m: "merged = finalize st"
    and md: "merged_metadata st = tab (\<lambda>k. fold_values k outs PyNone)"
    by blast
  have fv: "fold_values f outs PyNone = PyNone"
    by (rule fold_values_none[OF assms(3)])
  have absent: "\<not> py_in f merged"
    by (simp add: m py_in_def map_of_finalize_field[OF md assms(2)] fv in_none_or_empty_def)
  have acc: "py_getitem (merged_metadata st) f = Inr PyNone"
    using assms(2) by (simp add: md py_getitem_def map_of_tab fv)
  have nonull: "map_of merged k \<noteq> Some PyNone" for k
  proof
    assume "map_of merged k = Some PyNone"
    then have "(k, PyNone) \<in> set (finalize st)"
      unfolding m by (rule map_of_SomeD)
    from set_finalize[OF md this] show False
      by (simp add: in_none_or_empty_def)
  qed
  from loop m acc absent nonull show ?thesis by blast
qed

theorem unobserved_field_omitted_witness:
  "extract_and_merge_survey id [Survey example_P1, Survey example_P2] = Inr example_merged
   \<and> py_in ''operator'' example_merged = False"
proof -
  have f: "''operator'' \<in> set metadata_fields" by (simp add: metadata_fields_def)
  have n: "\<forall>p \<in> set [Survey example_P1, Survey example_P2]. page_value ''operator'' p = None"
    by (simp add: page_value_def eval_defs)
  from unobserved_field_omitted[where ex = id
      and images = "[Survey example_P1, Survey example_P2]"
      and outs = "[Survey example_P1, Survey example_P2]"
      and merged = example_merged and f = "''operator''", OF _ f n] example_run
  show ?thesis by simp
qed

text \<open>
  C9. In the record either merge function returns, no value is \<^verbatim>\<open>None\<close> or \<^verbatim>\<open>""\<close>;
  \<^verbatim>\<open>"survey_points"\<close> is a key exactly when some processed page contributed a point, and
  then holds a non-empty list; when no processed page had valid structured data the
  record is the empty dictionary.
\<close>

theorem merged_record_invariant:
  assumes "extract_and_merge_survey ex images = Inr merged \<and> outs = map ex images
         \<or> extract_selected_pages_survey ex pages_data sel = Inr merged
           \<and> outs = map ex (pages_in_selection pages_data sel)"
  shows "(\<forall>kv \<in> set merged. snd kv \<noteq> PyNone \<and> snd kv \<noteq> PyStr '''')
       \<and> (py_in ''survey_points'' merged \<longleftrightarrow> (\<exists>p \<in> set outs. page_points p \<noteq> []))
       \<and> (py_in ''survey_points'' merged \<longrightarrow>
            (\<exists>xs. py_getitem merged ''survey_points'' = Inr (PyList xs) \<and> xs \<noteq> []))
       \<and> ((\<forall>p \<in> set outs. \<not> page_valid p) \<longrightarrow> merged = [])"
proof -
  from run_closed[OF assms] obtain st where m: "merged = finalize st"
    and pts: "all_survey_points st = concat (map page_points outs)"
    and md: "merged_metadata st = tab (\<lambda>k. fold_values k outs PyNone)"
    by blast
  have vals: "\<forall>kv \<in> set merged. snd kv \<noteq> PyNone \<and> snd kv \<noteq> PyStr ''''"
  proof
    fix kv assume "kv \<in> set merged"
    then have "(fst kv, snd kv) \<in> set (finalize st)" by (simp add: m)
    from set_finalize[OF md this] show "snd kv \<noteq> PyNone \<and> snd kv \<noteq> PyStr ''''"
      by (auto simp: in_none_or_empty_def)
  qed
  have nonempty: "all_survey_points st \<noteq> [] \<longleftrightarrow> (\<exists>p \<in> set outs. page_points p \<noteq> [])"
    by (auto simp: pts)
  have present: "py_in ''survey_points'' merged \<longleftrightarrow> (\<exists>p \<in> set outs. page_points p \<noteq> [])"
    using nonempty by (auto simp: m py_in_def map_of_finalize_points[OF md])
  have list: "py_in ''survey_points'' merged \<longrightarrow>
            (\<exists>xs. py_getitem merged ''survey_points'' = Inr (PyList xs) \<and> xs \<noteq> [])"
    by (simp add: m py_in_def py_getitem_def map_of_finalize_points[OF md])
  have none: "(\<forall>p \<in> set outs. \<not> page_valid p) \<longrightarrow> merged = []"
  proof
    assume inv: "\<forall>p \<in> set outs. \<not> page_valid p"
    then have "all_survey_points st = []" by (simp add: pts invalid_page)
    moreover have "tab (\<lambda>k. fold_values k outs PyNone) = tab (\<lambda>k. PyNone)"
      by (simp add: fold_values_invalid[OF inv])
    ultimately show "merged = []"
      by (simp add: m finalize_closed[OF md] filter_tab_none)
  qed
  from vals present list none show ?thesis by blast
qed

theorem merged_record_invariant_witness:
  "extract_and_merge_survey id [Survey example_P1, Survey example_P2] = Inr example_merged
   \<and> py_in ''survey_points'' example_merged = True"
  using merged_record_invariant[where ex = id
      and images = "[Survey example_P1, Survey example_P2]"
      and outs = "[Survey example_P1, Survey example_P2]"
      and merged = example_merged] example_run
  by (simp add: example_P2_def)

text \<open>
  C8, as stated, fails: a merged record without points, fed back as the only page, is a
  dictionary without \<^verbatim>\<open>"survey_points"\<close>; the merge takes it for a failed page and
  drops its metadata.
\<close>

theorem remerge_without_points_counterexample:
  "extract_and_merge_survey id [Survey example_P1] = Inr [(''uwi'', PyStr ''ABC'')]
   \<and> extract_and_merge_survey id [Plain (PyDict [(''uwi'', PyStr ''ABC'')])]
       \<noteq> Inr [(''uwi'', PyStr ''ABC'')]"
  by (simp add: eval_defs)

text \<open>
  C8, amended. A merged record that has \<^verbatim>\<open>"survey_points"\<close>, or is empty, is a fixed
  point: merged again as the outcome of a single page, by either function, it comes back
  unchanged, keys in the same order.
\<close>

theorem remerge_with_points_is_identity:
  assumes "extract_and_merge_survey ex images = Inr merged
         \<or> extract_selected_pages_survey ex pages_data sel = Inr merged"
    and "py_in ''survey_points'' merged \<or> merged = []"
    and "ex' p = Plain (PyDict merged)"
  shows "extract_and_merge_survey ex' [p] = Inr merged
       \<and> extract_selected_pages_survey ex' [p] [0] = Inr merged"
proof -
  have "extract_and_merge_survey ex images = Inr merged \<and> map ex images = map ex images
      \<or> extract_selected_pages_survey ex pages_data sel = Inr merged
        \<and> map ex images = map ex (pages_in_selection pages_data sel)
      \<or> extract_selected_pages_survey ex pages_data sel = Inr merged"
    using assms(1) by blast
  then obtain st h where m: "merged = finalize st" and md: "merged_metadata st = tab h"
    using run_closed[of ex images merged "map ex images" pages_data sel]
      run_closed[of ex images merged "map ex (pages_in_selection pages_data sel)" pages_data sel]
    by blast
  have ok: "all_survey_points st \<noteq> [] \<or> finalize st = []"
    using assms(2) by (auto simp: m py_in_def map_of_finalize_points[OF md] split: if_splits)
  have q: "ex' p = Plain (PyDict (finalize st))" using assms(3) m by simp
  note r = remerge_state[OF md ok q]
  define st2 where "st2 = \<lparr>all_survey_points = page_points (ex' p),
      merged_metadata = tab (\<lambda>k. merge_value PyNone (py_get (page_metadata (ex' p)) k)),
      warnings = []\<rparr>"
  have a: "extract_and_merge_survey ex' [p] = Inr (finalize st2)"
    unfolding st2_def by (rule single_page_whole[of ex' p, OF r(1)])
  have b: "extract_selected_pages_survey ex' [p] [0] = Inr (finalize st2)"
    unfolding st2_def by (rule single_page_selected[of ex' p, OF r(1)])
  have a1: "all_survey_points st2 = page_points (ex' p)" by (simp add: st2_def)
  have a2: "merged_metadata st2 = tab (\<lambda>k. merge_value PyNone (py_get (page_metadata (ex' p)) k))"
    by (simp add: st2_def)
  have "finalize st2 = finalize st"
    by (rule finalize_cong[OF md a2]) (simp_all add: a1 r(2) r(3))
  then show ?thesis by (simp add: a b m)
qed

theorem remerge_with_points_is_identity_witness:
  "extract_and_merge_survey id [Survey example_P1, Survey example_P2] = Inr example_merged
   \<and> extract_and_merge_survey id [Plain (PyDict example_merged)] = Inr example_merged
   \<and> extract_selected_pages_survey id [Plain (PyDict example_merged)] [0] = Inr example_merged"
proof -
  have k: "py_in ''survey_points'' example_merged \<or> example_merged = []"
    by (simp add: py_in_def example_merged_def)
  from remerge_with_points_is_identity[where ex = id
      and images = "[Survey example_P1, Survey example_P2]" and merged = example_merged
      and ex' = id and p = "Plain (PyDict example_merged)", OF _ k] example_run
  show ?thesis by simp
qed

lemma py_index_nat: "j < length xs \<Longrightarrow> py_index xs (int j) = Inr (xs ! j)"
  by (simp add: py_index_def)

lemma selected_step_negative:
  assumes "1 \<le> k" and "k \<le> length pages_data"
  shows "selected_loop ex pages_data (- int k # rest) st =
         selected_loop ex pages_data (int (length pages_data - k) # rest) st"
proof -
  have n: "nat (int (length pages_data) - int k) = length pages_data - k"
    using assms by arith
  have "py_index pages_data (- int k) =
          Inr (pages_data ! nat (int (length pages_data) - int k))"
    using assms by (simp add: py_index_def)
  then have a: "py_index pages_data (- int k) = Inr (pages_data ! (length pages_data - k))"
    by (simp only: n)
  have "length pages_data - k < length pages_data"
    using assms by arith
  then have b: "py_index pages_data (int (length pages_data - k)) =
             Inr (pages_data ! (length pages_data - k))"
    by (rule py_index_nat)
  have c: "\<not> int (length pages_data) \<le> - int k"
    and d: "\<not> int (length pages_data) \<le> int (length pages_data - k)"
    using assms by arith+
  show ?thesis
    by (simp only: selected_loop.simps a b c d if_False)
qed

lemma selected_loop_append:
  "selected_loop ex pages_data (pre @ post) st =
     (case selected_loop ex pages_data pre st of
        Inl e \<Rightarrow> Inl e
      | Inr st' \<Rightarrow> selected_loop ex pages_data post st')"
  by (induction pre arbitrary: st) (auto split: sum.splits)

text \<open>
  C10. The guard of the selection loop only compares an index with the page count. For a
  non-empty page list and \<open>1 \<le> k \<le> len(pages_data)\<close>, the index \<open>-k\<close> behaves, at any
  place of any selection, exactly as the index \<open>len(pages_data) - k\<close>: it is not skipped, no
  out-of-range warning is recorded for it, and the page processed is the \<open>k\<close>-th from the
  end; \<open>-1\<close> processes the last page.
\<close>

theorem negative_index_selects_from_end:
  assumes "1 \<le> k" and "k \<le> length pages_data"
  shows "selected_loop ex pages_data (pre @ - int k # post) st =
           selected_loop ex pages_data (pre @ int (length pages_data - k) # post) st
       \<and> extract_selected_pages_survey ex pages_data (pre @ - int k # post) =
           extract_selected_pages_survey ex pages_data (pre @ int (length pages_data - k) # post)
       \<and> selected_loop ex pages_data [- int k] st =
           merge_page True (ex (pages_data ! (length pages_data - k))) st
       \<and> (\<forall>st'. selected_loop ex pages_data [- int k] st = Inr st' \<longrightarrow>
             OutOfRange (- int k) \<in> set (warnings st') \<longrightarrow> OutOfRange (- int k) \<in> set (warnings st))
       \<and> (k = 1 \<longrightarrow> selected_loop ex pages_data [- 1] st =
             merge_page True (ex (last pages_data)) st)"
proof -
  have step: "selected_loop ex pages_data (pre @ - int k # post) s =
           selected_loop ex pages_data (pre @ int (length pages_data - k) # post) s" for s
    by (simp add: selected_loop_append selected_step_negative[OF assms] del: selected_loop.simps
        split: sum.splits)
  have n: "nat (int (length pages_data) - int k) = length pages_data - k"
    using assms by arith
  have "py_index pages_data (- int k) =
          Inr (pages_data ! nat (int (length pages_data) - int k))"
    using assms by (simp add: py_index_def)
  then have idx: "py_index pages_data (- int k) = Inr (pages_data ! (length pages_data - k))"
    by (simp only: n)
  have single: "selected_loop ex pages_data [- int k] st =
           merge_page True (ex (pages_data ! (length pages_data - k))) st"
    using assms by (simp add: idx split: sum.splits)
  have warn: "OutOfRange (- int k) \<in> set (warnings st)"
    if "selected_loop ex pages_data [- int k] st = Inr st'"
      and "OutOfRange (- int k) \<in> set (warnings st')" for st'
    using that unfolding single
    by (auto simp: merge_page_def split: sum.splits prod.splits if_splits)
  have lst: "selected_loop ex pages_data [- 1] st = merge_page True (ex (last pages_data)) st"
    if "k = 1"
  proof -
    have "pages_data \<noteq> []" using assms by auto
    then have "pages_data ! (length pages_data - 1) = last pages_data"
      by (simp add: last_conv_nth)
    with single that show ?thesis by simp
  qed
  show ?thesis
    using step[of st] step[of init_state] single warn lst
    by (simp add: extract_selected_pages_survey_def)
qed

theorem negative_index_selects_from_end_witness:
  "extract_selected_pages_survey id [Survey example_P1, Survey example_P2] [- 1] =
     extract_selected_pages_survey id [Survey example_P1, Survey example_P2] [1]
   \<and> extract_selected_pages_survey id [Survey example_P1, Survey example_P2] [- 1] =
     Inr [(''uwi'', PyStr ''XYZ''),
          (''survey_points'', PyList [SurveyPoint_model_dump example_point])]"
proof -
  have r: "extract_selected_pages_survey id [Survey example_P1, Survey example_P2] [1] =
     Inr [(''uwi'', PyStr ''XYZ''),
          (''survey_points'', PyList [SurveyPoint_model_dump example_point])]"
    by (simp add: eval_defs)
  from negative_index_selects_from_end[where k = 1
      and pages_data = "[Survey example_P1, Survey example_P2]" and ex = id
      and pre = "[]" and post = "[]" and st = init_state] r
  show ?thesis by simp
qed

lemma validate_point_undeclared:
  "point_has_undeclared_field p \<Longrightarrow> validate_SurveyPoint p = None"
  by (cases p) (auto simp: point_has_undeclared_field_def validate_SurveyPoint_def)

lemma validate_undeclared:
  assumes "has_undeclared_field v"
  shows "validate_DirectionalSurvey v = None"
proof (cases v)
  case (PyDict d)
  show ?thesis
  proof (cases "\<exists>k \<in> set (map fst d). k \<notin> set DirectionalSurvey_fields")
    case True
    then show ?thesis
      unfolding PyDict validate_DirectionalSurvey_def by auto
  next
    case False
    with assms PyDict obtain ps p where ps: "py_get d ''survey_points'' = PyList ps"
      and p: "p \<in> set ps" "point_has_undeclared_field p"
      by (auto simp: has_undeclared_field_def split: pyval.splits)
    have "validate_points (py_get d ''survey_points'') = None"
      using p validate_point_undeclared by (auto simp: ps validate_points_def)
    then show ?thesis
      unfolding PyDict validate_DirectionalSurvey_def by simp
  qed
qed (use assms in \<open>simp_all add: has_undeclared_field_def\<close>)

lemma merge_fields_empty_page: "merge_fields [] fs merged = Inr merged"
  by (induction fs) (simp_all add: py_get_def in_none_or_empty_def)

lemma merge_page_empty_dict:
  "merge_page w (Plain (PyDict [])) st =
     Inr (st\<lparr>warnings := (if w then warnings st @ [NoValidData] else warnings st)\<rparr>)"
  by (simp add: merge_page_def py_in_def merge_fields_empty_page)

text \<open>
  C4. The schema is closed. When the backend's output for a page has a field that is not
  declared, in the record or in one of its survey points, validation fails,
  \<^verbatim>\<open>extract_survey_structured\<close> returns \<^verbatim>\<open>{}\<close>, and the page contributes nothing to
  the merge: the point list and the metadata accumulator are left as they were. The field
  is neither included nor dropped from an otherwise accepted record.
\<close>

theorem undeclared_field_fails_page:
  assumes "backend ''gpt-4.1'' text = BackendOutput v"
    and "has_undeclared_field v"
  shows "text_to_llm backend ''gpt-4.1'' text = Inl ValidationError
       \<and> extract_survey_structured backend text = Plain (PyDict [])
       \<and> page_points (extract_survey_structured backend text) = []
       \<and> page_metadata (extract_survey_structured backend text) = []
       \<and> merge_page w (extract_survey_structured backend text) st =
           Inr (st\<lparr>warnings := (if w then warnings st @ [NoValidData] else warnings st)\<rparr>)"
proof -
  have t: "text_to_llm backend ''gpt-4.1'' text = Inl ValidationError"
    by (simp add: text_to_llm_def assms(1) validate_undeclared[OF assms(2)])
  then have e: "extract_survey_structured backend text = Plain (PyDict [])"
    by (simp add: extract_survey_structured_def)
  show ?thesis
    by (simp add: t e merge_page_empty_dict py_in_def)
qed

theorem undeclared_field_fails_page_witness:
  "extract_survey_structured example_backend ''page text'' = Plain (PyDict [])
   \<and> merge_page True (extract_survey_structured example_backend ''page text'') init_state =
       Inr (init_state\<lparr>warnings := [NoValidData]\<rparr>)"
proof -
  have w: "warnings init_state = []" by (simp add: init_state_def)
  have b: "example_backend ''gpt-4.1'' ''page text'' = BackendOutput example_output"
    by (simp add: example_backend_def)
  have u: "has_undeclared_field example_output"
    by (simp add: has_undeclared_field_def example_output_def DirectionalSurvey_fields_def)
  from undeclared_field_fails_page[of example_backend "''page text''" example_output
      True init_state, OF b u]
  show ?thesis by (auto simp: w)
qed

lemma selected_vs_merge_loop:
  assumes "merged_metadata st = tab g" and "merged_metadata st2 = tab g"
    and "all_survey_points st2 = all_survey_points st"
    and "\<forall>i \<in> set sel. - int (length pages_data) \<le> i"
  shows "map_sum (\<lambda>e. e) (\<lambda>s. (all_survey_points s, merged_metadata s))
           (selected_loop ex pages_data sel st) =
         map_sum (\<lambda>e. e) (\<lambda>s. (all_survey_points s, merged_metadata s))
           (merge_loop ex (pages_in_selection pages_data sel) st2)"
  using assms
proof (induction sel arbitrary: st st2 g)
  case Nil
  then show ?case by (simp add: pages_in_selection_Nil)
next
  case (Cons i sel)
  show ?case
  proof (cases "i \<ge> int (length pages_data)")
    case True
    let ?st1 = "st\<lparr>warnings := warnings st @ [OutOfRange i]\<rparr>"
    have sp: "pages_in_selection pages_data (i # sel) = pages_in_selection pages_data sel"
      using True by (simp add: pages_in_selection_def)
    have "map_sum (\<lambda>e. e) (\<lambda>s. (all_survey_points s, merged_metadata s))
           (selected_loop ex pages_data sel ?st1) =
         map_sum (\<lambda>e. e) (\<lambda>s. (all_survey_points s, merged_metadata s))
           (merge_loop ex (pages_in_selection pages_data sel) st2)"
      by (rule Cons.IH[of _ g]) (use Cons.prems in simp_all)
    then show ?thesis using True by (simp add: sp)
  next
    case False
    have lo: "- int (length pages_data) \<le> i" using Cons.prems(4) by simp
    have "\<exists>page. py_index pages_data i = Inr page"
      using False lo by (simp add: py_index_def)
    then obtain page where pg: "py_index pages_data i = Inr page" ..
    have sp: "pages_in_selection pages_data (i # sel) = page # pages_in_selection pages_data sel"
      using False pg by (simp add: pages_in_selection_def)
    show ?thesis
    proof (cases "page_error (ex page)")
      case (Some e)
      then show ?thesis
        using False pg
        by (simp add: sp merge_page_closed[OF Cons.prems(1)] merge_page_closed[OF Cons.prems(2)])
    next
      case None
      let ?g = "\<lambda>k. merge_value (g k) (py_get (page_metadata (ex page)) k)"
      let ?s1 = "\<lparr>all_survey_points = all_survey_points st @ page_points (ex page),
               merged_metadata = tab ?g,
               warnings = (if True \<and> \<not> page_valid (ex page) then warnings st @ [NoValidData]
                           else warnings st)\<rparr>"
      let ?s2 = "\<lparr>all_survey_points = all_survey_points st2 @ page_points (ex page),
               merged_metadata = tab ?g,
               warnings = (if False \<and> \<not> page_valid (ex page) then warnings st2 @ [NoValidData]
                           else warnings st2)\<rparr>"
      have m1: "merge_page True (ex page) st = Inr ?s1"
        by (simp add: merge_page_closed[OF Cons.prems(1)] None)
      have m2: "merge_page False (ex page) st2 = Inr ?s2"
        by (simp add: merge_page_closed[OF Cons.prems(2)] None)
      have "map_sum (\<lambda>e. e) (\<lambda>s. (all_survey_points s, merged_metadata s))
           (selected_loop ex pages_data sel ?s1) =
         map_sum (\<lambda>e. e) (\<lambda>s. (all_survey_points s, merged_metadata s))
           (merge_loop ex (pages_in_selection pages_data sel) ?s2)"
        by (rule Cons.IH[of _ ?g]) (use Cons.prems in simp_all)
      moreover have "selected_loop ex pages_data (i # sel) st =
                     selected_loop ex pages_data sel ?s1"
        using False pg by (simp add: m1)
      moreover have "merge_loop ex (page # pages_in_selection pages_data sel) st2 =
                     merge_loop ex (pages_in_selection pages_data sel) ?s2"
        by (simp add: m2)
      ultimately show ?thesis by (simp only: sp)
    qed
  qed
qed

lemma finalize_core:
  "finalize s = finalize \<lparr>all_survey_points = fst (all_survey_points s, merged_metadata s),
                  merged_metadata = snd (all_survey_points s, merged_metadata s), warnings = []\<rparr>"
  by (simp add: finalize_def Let_def)

lemma selected_is_merge_of_selection:
  assumes "\<forall>i \<in> set sel. - int (length pages_data) \<le> i"
  shows "extract_selected_pages_survey ex pages_data sel =
         extract_and_merge_survey ex (pages_in_selection pages_data sel)"
proof -
  let ?core = "\<lambda>s. (all_survey_points s, merged_metadata s)"
  let ?fin = "\<lambda>c. finalize \<lparr>all_survey_points = fst c, merged_metadata = snd c, warnings = []\<rparr>"
  have fin: "(case r of Inl e \<Rightarrow> Inl e | Inr st \<Rightarrow> Inr (finalize st)) =
             map_sum (\<lambda>e. e) ?fin (map_sum (\<lambda>e. e) ?core r)" for r :: "py_error + merge_state"
    by (cases r) (simp_all add: finalize_def Let_def)
  have "map_sum (\<lambda>e. e) ?core (selected_loop ex pages_data sel init_state) =
        map_sum (\<lambda>e. e) ?core (merge_loop ex (pages_in_selection pages_data sel) init_state)"
    by (rule selected_vs_merge_loop[OF init_state_tab init_state_tab refl assms])
  then show ?thesis
    unfolding extract_selected_pages_survey_def extract_and_merge_survey_def fin by simp
qed

lemma checked_ids_gen:
  "map (\<lambda>ic. ids ! (fst ic - n))
     (filter (\<lambda>ic. snd ic \<and> fst ic - n < length ids) (enumerate n vs)) =
   map snd (filter fst (zip vs ids))"
proof (induction vs arbitrary: n ids)
  case Nil
  then show ?case by simp
next
  case (Cons v vs)
  show ?case
  proof (cases ids)
    case Nil
    then show ?thesis by simp
  next
    case (Cons i rest)
    have shift: "map (\<lambda>ic. (i # rest) ! (fst ic - n))
           (filter (\<lambda>ic. snd ic \<and> fst ic - n < Suc (length rest)) (enumerate (Suc n) vs)) =
         map (\<lambda>ic. rest ! (fst ic - Suc n))
           (filter (\<lambda>ic. snd ic \<and> fst ic - Suc n < length rest) (enumerate (Suc n) vs))"
    proof -
      have ge: "Suc n \<le> fst ic" if "ic \<in> set (enumerate (Suc n) vs)" for ic
        using that by (auto simp: in_set_enumerate_eq)
      have f: "filter (\<lambda>ic. snd ic \<and> fst ic - n < Suc (length rest)) (enumerate (Suc n) vs) =
               filter (\<lambda>ic. snd ic \<and> fst ic - Suc n < length rest) (enumerate (Suc n) vs)"
        by (rule filter_cong[OF refl]) (use ge in force)
      show ?thesis
        unfolding f by (rule map_cong[OF refl]) (use ge in \<open>force simp: Suc_diff_le\<close>)
    qed
    show ?thesis
      using Cons.IH[where n = "Suc n" and ids = rest] by (simp add: Cons shift)
  qed
qed

lemma checkbox_selection_zip:
  "update_page_selection_from_checkboxes checkbox_values checkbox_ids pages_data =
     (if pages_data = [] then []
      else sort (map snd (filter fst (zip checkbox_values checkbox_ids))))"
  using checked_ids_gen[of checkbox_ids 0 checkbox_values]
  by (simp add: update_page_selection_from_checkboxes_def)

lemma sort_cong_mset: "mset xs = mset ys \<Longrightarrow> sort xs = sort ys"
  by (metis sorted_list_of_multiset_mset)

lemma checkbox_selection_perm:
  assumes "mset (zip vs' ids') = mset (zip vs ids)"
  shows "update_page_selection_from_checkboxes vs' ids' pages_data =
         update_page_selection_from_checkboxes vs ids pages_data"
proof -
  have "mset (map snd (filter fst (zip vs' ids'))) = mset (map snd (filter fst (zip vs ids)))"
    by (metis assms mset_filter mset_map)
  then show ?thesis
    by (simp add: checkbox_selection_zip sort_cong_mset)
qed

lemma pages_in_selection_nonneg:
  "\<forall>i \<in> set sel. 0 \<le> i \<Longrightarrow>
   pages_in_selection pages_data sel =
     map (\<lambda>i. pages_data ! nat i) (filter (\<lambda>i. i < int (length pages_data)) sel)"
  by (induction sel) (auto simp: pages_in_selection_def py_index_def)

lemma nths_sorted_indices:
  assumes "sorted js" and "distinct js" and "\<forall>j \<in> set js. j < length xs"
  shows "nths xs (set js) = map (\<lambda>j. xs ! j) js"
proof -
  have "nths [0..<length xs] (set js) = js"
  proof (rule sorted_distinct_set_unique)
    show "sorted (nths [0..<length xs] (set js))" by (simp add: sorted_nths)
    show "distinct (nths [0..<length xs] (set js))" by simp
    show "sorted js" "distinct js" by fact+
    show "set (nths [0..<length xs] (set js)) = set js"
    proof (intro set_eqI iffI)
      fix x assume "x \<in> set (nths [0..<length xs] (set js))"
      then obtain i where "x = [0..<length xs] ! i" "i < length xs" "i \<in> set js"
        by (auto simp: set_nths)
      then show "x \<in> set js" by simp
    next
      fix x assume x: "x \<in> set js"
      then have lt: "x < length xs" using assms(3) by simp
      then have "[0..<length xs] ! x = x" by simp
      with x lt show "x \<in> set (nths [0..<length xs] (set js))"
        unfolding set_nths by (auto intro!: exI[of _ x])
    qed
  qed
  then have "map (\<lambda>j. xs ! j) (nths [0..<length xs] (set js)) = map (\<lambda>j. xs ! j) js"
    by simp
  then show ?thesis
    by (simp flip: nths_map add: map_nth)
qed

lemma nths_cong_below:
  "(\<And>i. i < length xs \<Longrightarrow> i \<in> A \<longleftrightarrow> i \<in> B) \<Longrightarrow> nths xs A = nths xs B"
  unfolding nths_def
  by (rule arg_cong[where f = "map fst"], rule filter_cong[OF refl])
     (auto simp: set_zip)

lemma pages_in_selection_nths:
  assumes "sorted sel" and "distinct sel" and "\<forall>i \<in> set sel. 0 \<le> i"
  shows "pages_in_selection pages_data sel = nths pages_data {i. int i \<in> set sel}"
proof -
  let ?js = "map nat (filter (\<lambda>i. i < int (length pages_data)) sel)"
  have nonneg: "\<forall>i \<in> set (filter (\<lambda>i. i < int (length pages_data)) sel). 0 \<le> i"
    using assms(3) by simp
  have s: "sorted ?js"
    using assms(1) nonneg
    by (auto simp: sorted_map sorted_wrt_iff_nth_less intro!: nat_mono
        dest: sorted_filter[of "\<lambda>x. x" sel "\<lambda>i. i < int (length pages_data)", simplified])
  have inj: "inj_on nat (set (filter (\<lambda>i. i < int (length pages_data)) sel))"
  proof (rule inj_onI)
    fix x y
    assume "x \<in> set (filter (\<lambda>i. i < int (length pages_data)) sel)"
      and "y \<in> set (filter (\<lambda>i. i < int (length pages_data)) sel)"
      and e: "nat x = nat y"
    with nonneg have "0 \<le> x" and "0 \<le> y" by auto
    with e show "x = y" by arith
  qed
  have d: "distinct ?js"
    using assms(2) inj by (simp add: distinct_map)
  have b: "\<forall>j \<in> set ?js. j < length pages_data"
    using nonneg by auto
  have "pages_in_selection pages_data sel = map (\<lambda>j. pages_data ! j) ?js"
    by (simp add: pages_in_selection_nonneg[OF assms(3)] comp_def)
  also have "\<dots> = nths pages_data (set ?js)"
    by (rule nths_sorted_indices[OF s d b, symmetric])
  also have "\<dots> = nths pages_data {i. int i \<in> set sel}"
  proof (rule nths_cong_below)
    fix i assume "i < length pages_data"
    then show "i \<in> set ?js \<longleftrightarrow> i \<in> {i. int i \<in> set sel}"
      using assms(3) by (force simp: image_iff)
  qed
  finally show ?thesis .
qed

text \<open>
  C6, as stated, fails for \<^verbatim>\<open>extract_selected_pages_survey\<close>: it processes the indices
  in the order of the list it is given. The same two pages of a three-page document,
  selected as \<open>[1, 0]\<close> and as \<open>[0, 1]\<close>, merge to different records.
\<close>

theorem selection_order_counterexample:
  "extract_selected_pages_survey id [Survey example_P1, Survey example_P2, Survey example_P3] [1, 0]
   \<noteq> extract_selected_pages_survey id [Survey example_P1, Survey example_P2, Survey example_P3] [0, 1]"
proof -
  have a: "extract_selected_pages_survey id
             [Survey example_P1, Survey example_P2, Survey example_P3] [1, 0] =
           Inr [(''uwi'', PyStr ''XYZ''),
                (''survey_points'', PyList [SurveyPoint_model_dump example_point])]"
    by (simp add: eval_defs)
  have b: "extract_selected_pages_survey id
             [Survey example_P1, Survey example_P2, Survey example_P3] [0, 1] =
           Inr [(''uwi'', PyStr ''ABC''),
                (''survey_points'', PyList [SurveyPoint_model_dump example_point])]"
    by (simp add: eval_defs)
  show ?thesis by (simp add: a b)
qed

text \<open>
  C6, amended. The page order is established by
  \<^verbatim>\<open>update_page_selection_from_checkboxes\<close>, which sorts the checked page indices. For
  the selection it returns (distinct page indices), the pages processed are exactly the
  selected pages of the document in their original relative order, the result is the
  merge of that sub-document, and listing the same checkboxes in another order gives the
  same selection.
\<close>

theorem checkbox_selection_in_page_order:
  assumes "sel = update_page_selection_from_checkboxes checkbox_values checkbox_ids pages_data"
    and "distinct sel"
    and "\<forall>i \<in> set sel. 0 \<le> i"
  shows "sorted sel
       \<and> pages_in_selection pages_data sel = nths pages_data {i. int i \<in> set sel}
       \<and> extract_selected_pages_survey ex pages_data sel =
           extract_and_merge_survey ex (nths pages_data {i. int i \<in> set sel})
       \<and> (mset (zip checkbox_values' checkbox_ids') = mset (zip checkbox_values checkbox_ids) \<longrightarrow>
            update_page_selection_from_checkboxes checkbox_values' checkbox_ids' pages_data = sel)"
proof -
  have s: "sorted sel"
    by (simp add: assms(1) checkbox_selection_zip)
  have n: "pages_in_selection pages_data sel = nths pages_data {i. int i \<in> set sel}"
    by (rule pages_in_selection_nths[OF s assms(2,3)])
  have lo: "\<forall>i \<in> set sel. - int (length pages_data) \<le> i"
    using assms(3) by force
  have e: "extract_selected_pages_survey ex pages_data sel =
           extract_and_merge_survey ex (nths pages_data {i. int i \<in> set sel})"
    using selected_is_merge_of_selection[OF lo, of ex] by (simp add: n)
  have p: "update_page_selection_from_checkboxes checkbox_values' checkbox_ids' pages_data = sel"
    if "mset (zip checkbox_values' checkbox_ids') = mset (zip checkbox_values checkbox_ids)"
    using checkbox_selection_perm[OF that] by (simp add: assms(1))
  from s n e p show ?thesis by blast
qed

theorem checkbox_selection_in_page_order_witness:
  "update_page_selection_from_checkboxes [True, True, False] [1, 0, 2]
     [Survey example_P1, Survey example_P2, Survey example_P3] = [0, 1]
   \<and> extract_selected_pages_survey id
       [Survey example_P1, Survey example_P2, Survey example_P3] [0, 1] =
     extract_and_merge_survey id [Survey example_P1, Survey example_P2]"
proof -
  have u: "update_page_selection_from_checkboxes [True, True, False] [1, 0, 2]
     [Survey example_P1, Survey example_P2, Survey example_P3] = [0, 1]"
    by (simp add: update_page_selection_from_checkboxes_def)
  have a: "nths [Survey example_P1, Survey example_P2, Survey example_P3]
             {i. int i \<in> set [0, 1]} = [Survey example_P1, Survey example_P2]"
    by (simp add: nths_Cons)
  from checkbox_selection_in_page_order[where sel = "[0, 1]"
      and checkbox_values = "[True, True, False]" and checkbox_ids = "[1, 0, 2]"
      and pages_data = "[Survey example_P1, Survey example_P2, Survey example_P3]"
      and ex = id, OF u[symmetric]] u a
  show ?thesis by simp
qed

lemma collect_keys_Inr:
  "collect_keys key xs = Inr ks \<Longrightarrow> ks = map (\<lambda>x. projr (key x)) xs"
  by (induction xs arbitrary: ks) (auto split: sum.splits)

lemma collect_keys_total:
  "\<forall>x \<in> set xs. \<exists>k. key x = Inr k \<Longrightarrow> \<exists>ks. collect_keys key xs = Inr ks"
  by (induction xs) auto

lemma py_sorted_list:
  assumes "py_sorted key (PyList xs) = Inr ys"
  shows "mset ys = mset xs \<and> sorted (map (\<lambda>x. projr (key x)) ys)"
proof -
  let ?k = "\<lambda>x. projr (key x)"
  let ?zs = "map (\<lambda>x. (?k x, x)) xs"
  from assms obtain ks where ks: "collect_keys key xs = Inr ks"
    and ys: "ys = map snd (sort_key fst (zip ks xs))"
    by (auto simp: py_sorted_def split: sum.splits)
  have z: "zip ks xs = ?zs"
    by (simp add: collect_keys_Inr[OF ks] zip_map1 zip_same_conv_map)
  have m: "mset ys = mset xs"
    by (simp add: ys z image_mset.compositionality comp_def)
  have "map ?k ys = map fst (sort_key fst ?zs)"
    unfolding ys z map_map by (rule map_cong[OF refl]) auto
  then have "sorted (map ?k ys)" by simp
  with m show ?thesis by simp
qed

lemma table_of_survey_rows:
  assumes "map_of survey ''survey_points'' = Some (PyList pts)" and "pts \<noteq> []"
    and "table_of_survey parse survey = Inr (cols, td)"
  shows "\<exists>rows. td = PyList rows \<and> mset rows = mset pts
           \<and> ((\<forall>x \<in> set pts. \<exists>r. md_key parse x = Inr r) \<longrightarrow>
                 sorted (map (\<lambda>x. projr (md_key parse x)) rows))"
proof (cases "py_sorted (md_key parse) (PyList pts)")
  case (Inl e)
  then have "collect_keys (md_key parse) pts = Inl e"
    by (auto simp: py_sorted_def split: sum.splits)
  then have "\<not> (\<forall>x \<in> set pts. \<exists>r. md_key parse x = Inr r)"
    using collect_keys_total[of pts "md_key parse"] by auto
  moreover have "td = PyList pts"
    using assms Inl
    by (auto simp: table_of_survey_def py_in_def py_getitem_def py_truthy_def Let_def
        split: sum.splits if_splits)
  ultimately show ?thesis by auto
next
  case (Inr ys)
  have "td = PyList ys"
    using assms Inr
    by (auto simp: table_of_survey_def py_in_def py_getitem_def py_truthy_def Let_def
        split: sum.splits if_splits)
  with py_sorted_list[OF Inr] show ?thesis by simp
qed

lemma table_of_survey_no_points:
  "map_of survey ''survey_points'' = None \<Longrightarrow> table_of_survey parse survey = Inr ([], PyList [])"
  by (simp add: table_of_survey_def py_in_def)

text \<open>
  C3, amended. \<^verbatim>\<open>process_selected_pages\<close> sorts into a new list: the value it gives
  the survey store is the merged record itself, points in merge order, and the sorted list
  goes to the table only; the table's rows are a rearrangement of the stored points, in
  ascending \<^verbatim>\<open>md\<close> when every point has a readable \<^verbatim>\<open>md\<close>. The stored order lasts
  until \<^verbatim>\<open>update_survey_from_table\<close> runs: it replaces the store's point list by the
  table's data.
\<close>

theorem display_sort_is_a_view:
  assumes "extract_selected_pages_survey ex pages_data sel = Inr survey"
    and "n_clicks = Some n" and "0 < n" and "pages_data \<noteq> []" and "sel \<noteq> []"
    and "table_of_survey parse survey = Inr (cols, td)"
  shows "out_survey (process_selected_pages ex parse str_of n_clicks pages_data sel) = Output survey
       \<and> out_table_data (process_selected_pages ex parse str_of n_clicks pages_data sel) = Output td
       \<and> (\<exists>pts rows. py_get_default survey ''survey_points'' (PyList []) = PyList pts
             \<and> td = PyList rows \<and> mset rows = mset pts
             \<and> ((\<forall>x \<in> set pts. \<exists>r. md_key parse x = Inr r) \<longrightarrow>
                   sorted (map (\<lambda>x. projr (md_key parse x)) rows)))
       \<and> (survey \<noteq> [] \<longrightarrow>
            update_survey_from_table td (Some survey) =
              Some (AList.update ''survey_points'' td survey)
            \<and> py_getitem (AList.update ''survey_points'' td survey) ''survey_points'' = Inr td)"
proof -
  let ?out = "process_selected_pages ex parse str_of n_clicks pages_data sel"
  have o: "out_survey ?out = Output survey \<and> out_table_data ?out = Output td"
    using assms by (simp add: process_selected_pages_def)
  have "extract_and_merge_survey ex [] = Inr survey \<and> map ex (pages_in_selection pages_data sel) = map ex []
      \<or> extract_selected_pages_survey ex pages_data sel = Inr survey
        \<and> map ex (pages_in_selection pages_data sel) = map ex (pages_in_selection pages_data sel)"
    using assms(1) by simp
  from run_closed[OF this] obtain st where m: "survey = finalize st"
    and md: "merged_metadata st = tab (\<lambda>k. fold_values k (map ex (pages_in_selection pages_data sel)) PyNone)"
    by blast
  have rows: "\<exists>pts rows. py_get_default survey ''survey_points'' (PyList []) = PyList pts
             \<and> td = PyList rows \<and> mset rows = mset pts
             \<and> ((\<forall>x \<in> set pts. \<exists>r. md_key parse x = Inr r) \<longrightarrow>
                   sorted (map (\<lambda>x. projr (md_key parse x)) rows))"
  proof (cases "all_survey_points st = []")
    case True
    then have none: "map_of survey ''survey_points'' = None"
      by (simp add: m map_of_finalize_points[OF md])
    from table_of_survey_no_points[OF none, of parse] assms(6) have "td = PyList []" by simp
    then show ?thesis by (simp add: py_get_default_def none)
  next
    case False
    then have some: "map_of survey ''survey_points'' =
        Some (PyList (map dump_point (all_survey_points st)))"
      by (simp add: m map_of_finalize_points[OF md])
    from table_of_survey_rows[OF some _ assms(6)] False
    show ?thesis by (simp add: py_get_default_def some)
  qed
  have td: "td \<noteq> PyNone"
    using rows by auto
  have upd: "survey \<noteq> [] \<longrightarrow>
            update_survey_from_table td (Some survey) =
              Some (AList.update ''survey_points'' td survey)
            \<and> py_getitem (AList.update ''survey_points'' td survey) ''survey_points'' = Inr td"
    using td by (simp add: update_survey_from_table_def py_getitem_def update_conv')
  from o rows upd show ?thesis by blast
qed

lemmas table_defs =
  process_selected_pages_def table_of_survey_def py_sorted_def md_key_def py_float_def
  py_get_default_def py_truthy_def py_first_def py_keys_def meta_keys_def
  SurveyPoint_model_dump_def example_point_def example_deep_point_def example_Q_def
  example_stored_def example_displayed_def update_survey_from_table_def

lemma example_Q_run:
  "extract_selected_pages_survey id [Survey example_Q] [0] = Inr example_stored"
  by (simp add: eval_defs example_Q_def example_stored_def)

lemma example_Q_table:
  "table_of_survey example_parse example_stored =
     Inr (map (\<lambda>k. PyDict [(''name'', PyStr k), (''id'', PyStr k)])
            [''md'', ''inc'', ''azi'', ''tvd'', ''ns'', ''ew''], example_displayed)"
  by (simp add: table_defs py_in_def py_getitem_def py_index_def)

text \<open>
  C3, as stated, fails. \<^verbatim>\<open>update_survey_from_table\<close> is registered on the \<^verbatim>\<open>data\<close>
  property of the survey table, which \<^verbatim>\<open>process_selected_pages\<close> sets to the sorted
  list, with the survey store as state and output. Run on what
  \<^verbatim>\<open>process_selected_pages\<close> displays for a page listing \<^verbatim>\<open>md\<close> 200 before
  \<^verbatim>\<open>md\<close> 100, it leaves the store with the points in display order, 100 before 200:
  the order later exports read is no longer the merge order.
\<close>

theorem display_sort_reaches_store_counterexample:
  "out_survey (process_selected_pages id example_parse example_str (Some 1)
       [Survey example_Q] [0]) = Output example_stored
   \<and> out_table_data (process_selected_pages id example_parse example_str (Some 1)
       [Survey example_Q] [0]) = Output example_displayed
   \<and> update_survey_from_table example_displayed (Some example_stored) =
       Some [(''uwi'', PyStr ''ABC''), (''survey_points'', example_displayed)]
   \<and> py_get [(''uwi'', PyStr ''ABC''), (''survey_points'', example_displayed)] ''survey_points''
       \<noteq> py_get example_stored ''survey_points''"
proof -
  have a: "out_survey (process_selected_pages id example_parse example_str (Some 1)
       [Survey example_Q] [0]) = Output example_stored
   \<and> out_table_data (process_selected_pages id example_parse example_str (Some 1)
       [Survey example_Q] [0]) = Output example_displayed"
    by (simp add: process_selected_pages_def example_Q_run example_Q_table)
  have b: "update_survey_from_table example_displayed (Some example_stored) =
       Some [(''uwi'', PyStr ''ABC''), (''survey_points'', example_displayed)]"
    by (simp add: update_survey_from_table_def example_stored_def example_displayed_def)
  have c: "py_get [(''uwi'', PyStr ''ABC''), (''survey_points'', example_displayed)] ''survey_points''
       \<noteq> py_get example_stored ''survey_points''"
    by (simp add: py_get_def example_stored_def example_displayed_def
        SurveyPoint_model_dump_def example_point_def example_deep_point_def)
  from a b c show ?thesis by simp
qed

theorem display_sort_is_a_view_witness:
  "out_survey (process_selected_pages id example_parse example_str (Some 1)
       [Survey example_Q] [0]) = Output example_stored
   \<and> py_get example_stored ''survey_points'' =
       PyList [SurveyPoint_model_dump example_deep_point, SurveyPoint_model_dump example_point]"
proof -
  have p: "[Survey example_Q] \<noteq> []" and s: "[0::int] \<noteq> []" and n: "(0::nat) < 1" by simp_all
  from display_sort_is_a_view[where ex = id and pages_data = "[Survey example_Q]" and sel = "[0]"
      and survey = example_stored and n_clicks = "Some 1" and n = 1 and parse = example_parse
      and td = example_displayed and str_of = example_str,
      OF example_Q_run refl n p s example_Q_table]
  show ?thesis by (simp add: py_get_def example_stored_def)
qed

end
